theory Spec2Isabelle
  imports Main
begin

section \<open>Resource lists\<close>

text \<open>
  A \<^verbatim>\<open>corev1.ResourceList\<close> is a Go map from resource names to quantities. It is
  modelled as an association list read with \<^const>\<open>map_of\<close>; a quantity is a signed
  number of base units, as \<^verbatim>\<open>resource.Quantity\<close> is signed. The three functions
  below are the ones \<^verbatim>\<open>plugin.go\<close> calls from \<^verbatim>\<open>k8s.io/apiserver/pkg/quota/v1\<close>;
  each follows the two loops of the library function.
\<close>

type_synonym ResourceName = string
type_synonym Quantity = int
type_synonym ResourceList = "(ResourceName \<times> Quantity) list"

text \<open>\<^verbatim>\<open>quotav1.Add(a, b)\<close>: every key of \<open>a\<close>, plus \<open>b\<close>'s quantity where \<open>b\<close> has
  the key; then every key of \<open>b\<close> that the result does not have yet.\<close>

definition Add :: "ResourceList \<Rightarrow> ResourceList \<Rightarrow> ResourceList" where
  "Add a b =
     map (\<lambda>(key, value).
            (key, case map_of b key of Some other \<Rightarrow> value + other | None \<Rightarrow> value)) a
     @ filter (\<lambda>(key, value). map_of a key = None) b"

text \<open>\<^verbatim>\<open>quotav1.SubtractWithNonNegativeResult(a, b)\<close>: every key of \<open>a\<close>, minus \<open>b\<close>'s
  quantity where \<open>b\<close> has the key, replaced by zero unless it is positive; then zero
  for every key of \<open>b\<close> that the result does not have yet.\<close>

definition SubtractWithNonNegativeResult :: "ResourceList \<Rightarrow> ResourceList \<Rightarrow> ResourceList" where
  "SubtractWithNonNegativeResult a b =
     map (\<lambda>(key, value).
            let quantity = (case map_of b key of Some other \<Rightarrow> value - other | None \<Rightarrow> value)
            in (key, if quantity > 0 then quantity else 0)) a
     @ map (\<lambda>(key, value). (key, 0)) (filter (\<lambda>(key, value). map_of a key = None) b)"

text \<open>\<^verbatim>\<open>quotav1.LessThanOrEqual(a, b)\<close>: ranges over the keys of \<open>b\<close>, and collects
  those that \<open>a\<close> has with a greater quantity; the result is true when none is
  collected.\<close>

definition LessThanOrEqual :: "ResourceList \<Rightarrow> ResourceList \<Rightarrow> bool \<times> ResourceName list" where
  "LessThanOrEqual a b =
     (let resourceNames =
            map fst (filter (\<lambda>(key, value).
                               case map_of a key of Some other \<Rightarrow> other > value | None \<Rightarrow> False) b)
      in (resourceNames = [], resourceNames))"

text \<open>\<open>a\<close> exceeds \<open>b\<close> in the dimension \<open>key\<close>: \<open>b\<close> lists the key with a quantity,
  and \<open>a\<close> has a greater quantity for it.\<close>

definition exceedsIn :: "ResourceList \<Rightarrow> ResourceList \<Rightarrow> ResourceName \<Rightarrow> bool" where
  "exceedsIn a b key =
     list_ex (\<lambda>(k, value). k = key \<and>
                (case map_of a key of Some other \<Rightarrow> value < other | None \<Rightarrow> False)) b"

text \<open>The quantity of one dimension of a resource vector; an absent entry is zero.\<close>

definition quantityOf :: "ResourceList \<Rightarrow> ResourceName \<Rightarrow> Quantity" where
  "quantityOf rl key = (case map_of rl key of Some value \<Rightarrow> value | None \<Rightarrow> 0)"

text \<open>No entry of the list is negative.\<close>

definition nonNegative :: "ResourceList \<Rightarrow> bool" where
  "nonNegative rl = list_all (\<lambda>(key, value). 0 \<le> value) rl"

section \<open>Pods, statuses, quota snapshots\<close>

text \<open>
  Of a pod the plugin reads: its identity, the quota name that
  \<^verbatim>\<open>getPodAssociateQuotaName\<close> resolves from its label, whether
  \<^verbatim>\<open>reservationutil.IsReservePod\<close> holds, and the request vector that
  \<^verbatim>\<open>resource.PodRequestsAndLimits\<close> computes. These helpers are outside
  \<^verbatim>\<open>plugin.go\<close>; their results are fields of the pod.
\<close>

record Pod =
  podKey :: string
  quotaLabel :: string
  reservePod :: bool
  requests :: ResourceList

definition IsReservePod :: "Pod \<Rightarrow> bool" where
  "IsReservePod pod = reservePod pod"

definition PodRequestsAndLimits :: "Pod \<Rightarrow> ResourceList" where
  "PodRequestsAndLimits pod = requests pod"

datatype Code = Success | Error | Unschedulable

datatype error = StateNotFound

text \<open>The message of a status: a literal text, the text of an error, or the arguments of
  the \<^verbatim>\<open>Insufficient quotas\<close> format string (quota name, runtime, used, the pod's
  request, the exceeded dimensions).\<close>

datatype Message =
    Text string
  | ErrorText error
  | InsufficientQuotas string ResourceList ResourceList ResourceList "ResourceName list"

text \<open>A \<^verbatim>\<open>*framework.Status\<close>; the nil pointer is a status too, and the framework
  reads it as success.\<close>

datatype Status = NilStatus | NewStatus Code Message

fun StatusCode :: "Status \<Rightarrow> Code" where
  "StatusCode NilStatus = Success"
| "StatusCode (NewStatus c m) = c"

definition IsSuccess :: "Status \<Rightarrow> bool" where
  "IsSuccess s = (StatusCode s = Success)"

text \<open>
  Modelled from the spec: \<^verbatim>\<open>core.QuotaInfo\<close> is not in the sources. A quota group has
  a name, a parent reference by name, the vectors \<open>Used\<close>, \<open>Request\<close> and \<open>Runtime\<close>, and
  the workload assignments recorded for it (workload identity to requested vector).
  \<^verbatim>\<open>IsPodExist\<close> is true of a pod whose assignment is recorded.
\<close>

record QuotaInfo =
  Name :: string
  ParentName :: string
  Used :: ResourceList
  Request :: ResourceList
  Runtime :: ResourceList
  assignments :: "string \<rightharpoonup> ResourceList"

definition IsPodExist :: "QuotaInfo \<Rightarrow> Pod \<Rightarrow> bool" where
  "IsPodExist qi pod = (assignments qi (podKey pod) \<noteq> None)"

section \<open>The per-attempt state\<close>

record PostFilterState =
  quotaInfo :: QuotaInfo
  used :: ResourceList
  runtime :: ResourceList

definition Clone :: "PostFilterState \<Rightarrow> PostFilterState" where
  "Clone p = \<lparr>quotaInfo = quotaInfo p, used = used p, runtime = runtime p\<rparr>"

text \<open>A \<^verbatim>\<open>framework.CycleState\<close> maps keys to state data; the plugin stores its
  \<^verbatim>\<open>PostFilterState\<close> under \<^verbatim>\<open>postFilterKey\<close>.\<close>

type_synonym CycleState = "string \<rightharpoonup> PostFilterState"

definition PluginName :: string where
  "PluginName = ''ElasticQuota''"

definition postFilterKey :: string where
  "postFilterKey = ''PostFilter'' @ PluginName"

text \<open>
  Modelled from the spec: \<^verbatim>\<open>getPostFilterState\<close> is not in the sources. It reads the
  per-attempt state that admission stored in the cycle state, and reports an error
  when the attempt has none.
\<close>

definition getPostFilterState :: "CycleState \<Rightarrow> error + PostFilterState" where
  "getPostFilterState state =
     (case state postFilterKey of None \<Rightarrow> Inl StateNotFound | Some s \<Rightarrow> Inr s)"

section \<open>The group quota manager\<close>

text \<open>
  Modelled from the spec: the package \<^verbatim>\<open>core\<close> (\<^verbatim>\<open>GroupQuotaManager\<close>) is not in the
  sources. The manager owns the quota tree as a name-keyed mapping. The runtime
  calculator is a parameter of the manager: given the tree and the name being
  refreshed, it yields the recomputed \<open>Runtime\<close> of the groups it covers.
  \<open>strictMode\<close> is the configured fallback policy for unknown tenants; \<open>dirty\<close> is the
  flag against which \<^verbatim>\<open>RefreshRuntime\<close> is memoized.
\<close>

record GroupQuotaManager =
  quotaInfoMap :: "string \<rightharpoonup> QuotaInfo"
  runtimeCalculator :: "(string \<rightharpoonup> QuotaInfo) \<Rightarrow> string \<Rightarrow> (string \<rightharpoonup> ResourceList)"
  dirty :: bool
  strictMode :: bool

definition DefaultQuotaName :: string where
  "DefaultQuotaName = ''default''"

text \<open>Modelled from the spec: \<^verbatim>\<open>RefreshRuntime(name)\<close> recomputes \<open>Runtime\<close> along the
  root-to-node path; it is a no-op if nothing is dirty.\<close>

definition RefreshRuntime :: "GroupQuotaManager \<Rightarrow> string \<Rightarrow> GroupQuotaManager" where
  "RefreshRuntime mgr name =
     (if dirty mgr then
        mgr\<lparr>quotaInfoMap :=
              (\<lambda>n. case quotaInfoMap mgr n of
                     None \<Rightarrow> None
                   | Some qi \<Rightarrow>
                       (case runtimeCalculator mgr (quotaInfoMap mgr) name n of
                          None \<Rightarrow> Some qi
                        | Some r \<Rightarrow> Some (qi\<lparr>Runtime := r\<rparr>))),
            dirty := False\<rparr>
      else mgr)"

text \<open>Modelled from the spec: \<^verbatim>\<open>GetQuotaInfoByName(name)\<close> returns a snapshot of the
  named group, or resolves to the group \<open>default\<close> if the name is absent, unless strict
  mode is configured; the result \<open>None\<close> is the nil pointer.\<close>

definition GetQuotaInfoByName :: "GroupQuotaManager \<Rightarrow> string \<Rightarrow> QuotaInfo option" where
  "GetQuotaInfoByName mgr name =
     (case quotaInfoMap mgr name of
        Some qi \<Rightarrow> Some qi
      | None \<Rightarrow> if strictMode mgr then None else quotaInfoMap mgr DefaultQuotaName)"

text \<open>Modelled from the spec: the group that stands for a tenant name (section 7,
  QuotaNotFound): the name itself when it is a group of the tree, and \<open>default\<close>
  otherwise. It is the key of the group that \<^verbatim>\<open>GetQuotaInfoByName\<close> finds, when it
  finds one.\<close>

definition resolvedName :: "GroupQuotaManager \<Rightarrow> string \<Rightarrow> string" where
  "resolvedName mgr name = (if quotaInfoMap mgr name = None then DefaultQuotaName else name)"

text \<open>Modelled from the spec: \<^verbatim>\<open>ReservePod(tenant, workload)\<close> is an idempotent add of
  the workload's request to \<open>Used\<close> and \<open>Request\<close>, and records the assignment. The
  tenant is found as admission finds it, so that a workload admitted against \<open>default\<close>
  is charged to \<open>default\<close>; where admission finds no group and fails, there is no group
  to charge.\<close>

definition ReservePod :: "GroupQuotaManager \<Rightarrow> string \<Rightarrow> Pod \<Rightarrow> GroupQuotaManager" where
  "ReservePod mgr quotaName p =
     (case GetQuotaInfoByName mgr quotaName of
        None \<Rightarrow> mgr
      | Some qi \<Rightarrow>
          if IsPodExist qi p then mgr
          else mgr\<lparr>quotaInfoMap := (quotaInfoMap mgr)(resolvedName mgr quotaName \<mapsto>
                 qi\<lparr>Used := Add (Used qi) (PodRequestsAndLimits p),
                    Request := Add (Request qi) (PodRequestsAndLimits p),
                    assignments := (assignments qi)(podKey p \<mapsto> PodRequestsAndLimits p)\<rparr>)\<rparr>)"

text \<open>Modelled from the spec: \<^verbatim>\<open>UnreservePod(tenant, workload)\<close> is the inverse, with
  the subtraction floored at zero per resource dimension; it is a no-op if the
  workload was not tracked.\<close>

definition UnreservePod :: "GroupQuotaManager \<Rightarrow> string \<Rightarrow> Pod \<Rightarrow> GroupQuotaManager" where
  "UnreservePod mgr quotaName p =
     (case GetQuotaInfoByName mgr quotaName of
        None \<Rightarrow> mgr
      | Some qi \<Rightarrow>
          if \<not> IsPodExist qi p then mgr
          else mgr\<lparr>quotaInfoMap := (quotaInfoMap mgr)(resolvedName mgr quotaName \<mapsto>
                 qi\<lparr>Used := SubtractWithNonNegativeResult (Used qi) (PodRequestsAndLimits p),
                    Request := SubtractWithNonNegativeResult (Request qi) (PodRequestsAndLimits p),
                    assignments := (assignments qi)(podKey p := None)\<rparr>)\<rparr>)"


section \<open>The plugin\<close>

text \<open>Of \<^verbatim>\<open>config.ElasticQuotaArgs\<close> the admission path reads one flag.\<close>

record ElasticQuotaArgs =
  EnableCheckParentQuota :: bool

record Plugin =
  pluginArgs :: ElasticQuotaArgs
  groupQuotaManager :: GroupQuotaManager

text \<open>Modelled from the spec: \<^verbatim>\<open>getPodAssociateQuotaName\<close> is not in the sources; it
  resolves the tenant by the pod's label.\<close>

definition getPodAssociateQuotaName :: "Plugin \<Rightarrow> Pod \<Rightarrow> string" where
  "getPodAssociateQuotaName g pod = quotaLabel pod"

text \<open>Modelled from the spec: \<^verbatim>\<open>snapshotPostFilterState\<close> is not in the sources; it
  takes the tenant snapshot's \<open>Used\<close> and \<open>Runtime\<close> as the per-attempt state and stores
  it in the cycle state.\<close>

definition snapshotPostFilterState ::
    "QuotaInfo \<Rightarrow> CycleState \<Rightarrow> PostFilterState \<times> CycleState" where
  "snapshotPostFilterState qi cycleState =
     (let postFilterState = \<lparr>quotaInfo = qi, used = Used qi, runtime = Runtime qi\<rparr>
      in (postFilterState, cycleState(postFilterKey \<mapsto> postFilterState)))"

text \<open>Modelled from the spec: \<^verbatim>\<open>checkQuotaRecursive\<close> is not in the sources; it repeats
  the check of used plus request against \<open>Runtime\<close> up each ancestor quota, following the
  parent references by name until a name that is no group of the tree. The result
  \<open>None\<close> is a call that does not return (a parent chain that never ends).\<close>

partial_function (option) checkQuotaRecursive ::
    "GroupQuotaManager \<Rightarrow> string \<Rightarrow> string list \<Rightarrow> ResourceList \<Rightarrow> Status option" where
  "checkQuotaRecursive mgr curQuotaName quotaNameTopo podRequest =
     (case GetQuotaInfoByName mgr curQuotaName of
        None \<Rightarrow> Some (NewStatus Success (Text ''''))
      | Some qi \<Rightarrow>
          (case quotaInfoMap mgr (ParentName qi) of
             None \<Rightarrow> Some (NewStatus Success (Text ''''))
           | Some parent \<Rightarrow>
               if \<not> fst (LessThanOrEqual (Add podRequest (Used parent)) (Runtime parent))
               then Some (NewStatus Unschedulable
                           (InsufficientQuotas (ParentName qi) (Runtime parent) (Used parent) podRequest
                              (snd (LessThanOrEqual (Add podRequest (Used parent)) (Runtime parent)))))
               else checkQuotaRecursive mgr (ParentName qi) (ParentName qi # quotaNameTopo) podRequest))"

text \<open>\<^verbatim>\<open>Plugin.PreFilter\<close>. The result \<open>None\<close> is a call that does not return; otherwise
  the status comes with the plugin and the cycle state as the call leaves them. The
  \<^verbatim>\<open>PreFilterResult\<close> is nil on every path and is left out.\<close>

definition PreFilter :: "Plugin \<Rightarrow> CycleState \<Rightarrow> Pod \<Rightarrow> (Status \<times> Plugin \<times> CycleState) option" where
  "PreFilter g cycleState pod =
     (let quotaName = getPodAssociateQuotaName g pod;
          g' = g\<lparr>groupQuotaManager := RefreshRuntime (groupQuotaManager g) quotaName\<rparr>
      in case GetQuotaInfoByName (groupQuotaManager g') quotaName of
           None \<Rightarrow>
             Some (NewStatus Error (Text ''Could not find the specified ElasticQuota''), g', cycleState)
         | Some qi \<Rightarrow>
             (case snapshotPostFilterState qi cycleState of
                (state, cycleState') \<Rightarrow>
                  let podRequest = PodRequestsAndLimits pod;
                      usedWithPod = Add podRequest (used state)
                  in case LessThanOrEqual usedWithPod (runtime state) of
                       (isLessEqual, exceedDimensions) \<Rightarrow>
                         if \<not> isLessEqual then
                           Some (NewStatus Unschedulable
                                   (InsufficientQuotas quotaName (runtime state) (used state)
                                      podRequest exceedDimensions), g', cycleState')
                         else if EnableCheckParentQuota (pluginArgs g') then
                           map_option (\<lambda>status. (status, g', cycleState'))
                             (checkQuotaRecursive (groupQuotaManager g') quotaName [quotaName] podRequest)
                         else Some (NewStatus Success (Text ''''), g', cycleState')))"

text \<open>\<^verbatim>\<open>Plugin.AddPod\<close> and \<^verbatim>\<open>Plugin.RemovePod\<close>; the node info is not read. The
  per-attempt state is held by pointer in the cycle state, so the assignment to its
  \<open>used\<close> field is an update of the cycle state's entry.\<close>

definition AddPod :: "Plugin \<Rightarrow> CycleState \<Rightarrow> Pod \<Rightarrow> Pod \<Rightarrow> Status \<times> Plugin \<times> CycleState" where
  "AddPod g state podToSchedule podToAdd =
     (if IsReservePod podToAdd then (NilStatus, g, state)
      else case getPostFilterState state of
             Inl err \<Rightarrow> (NewStatus Error (ErrorText err), g, state)
           | Inr postFilterState \<Rightarrow>
               if IsPodExist (quotaInfo postFilterState) podToAdd then
                 (NewStatus Success (Text ''''), g,
                  state(postFilterKey \<mapsto> postFilterState
                    \<lparr>used := Add (used postFilterState) (PodRequestsAndLimits podToAdd)\<rparr>))
               else (NewStatus Success (Text ''''), g, state))"

definition RemovePod :: "Plugin \<Rightarrow> CycleState \<Rightarrow> Pod \<Rightarrow> Pod \<Rightarrow> Status \<times> Plugin \<times> CycleState" where
  "RemovePod g state podToSchedule podToRemove =
     (if IsReservePod podToRemove then (NilStatus, g, state)
      else case getPostFilterState state of
             Inl err \<Rightarrow> (NewStatus Error (ErrorText err), g, state)
           | Inr postFilterState \<Rightarrow>
               if IsPodExist (quotaInfo postFilterState) podToRemove then
                 (NewStatus Success (Text ''''), g,
                  state(postFilterKey \<mapsto> postFilterState
                    \<lparr>used := SubtractWithNonNegativeResult (used postFilterState)
                               (PodRequestsAndLimits podToRemove)\<rparr>))
               else (NewStatus Success (Text ''''), g, state))"

text \<open>\<^verbatim>\<open>Plugin.Reserve\<close> and \<^verbatim>\<open>Plugin.Unreserve\<close>; the cycle state and the node name
  are not read.\<close>

definition Reserve :: "Plugin \<Rightarrow> Pod \<Rightarrow> Status \<times> Plugin" where
  "Reserve g p =
     (let quotaName = getPodAssociateQuotaName g p
      in (NewStatus Success (Text ''''),
          g\<lparr>groupQuotaManager := ReservePod (groupQuotaManager g) quotaName p\<rparr>))"

definition Unreserve :: "Plugin \<Rightarrow> Pod \<Rightarrow> Plugin" where
  "Unreserve g p =
     (let quotaName = getPodAssociateQuotaName g p
      in g\<lparr>groupQuotaManager := UnreservePod (groupQuotaManager g) quotaName p\<rparr>)"

section \<open>Sequences of simulated operations\<close>

text \<open>While the preemption search evaluates victims on a node, the framework calls
  \<^verbatim>\<open>AddPod\<close> and \<^verbatim>\<open>RemovePod\<close> on one cycle state, in any order; \<open>simulate\<close> runs such
  a sequence of calls.\<close>

datatype SimulatedOp = SimulatedAdd Pod | SimulatedRemove Pod

fun opPod :: "SimulatedOp \<Rightarrow> Pod" where
  "opPod (SimulatedAdd p) = p"
| "opPod (SimulatedRemove p) = p"

fun simulate :: "Plugin \<Rightarrow> CycleState \<Rightarrow> Pod \<Rightarrow> SimulatedOp list \<Rightarrow> CycleState" where
  "simulate g state pod [] = state"
| "simulate g state pod (SimulatedAdd p # ops) =
     (case AddPod g state pod p of (status, g', state') \<Rightarrow> simulate g' state' pod ops)"
| "simulate g state pod (SimulatedRemove p # ops) =
     (case RemovePod g state pod p of (status, g', state') \<Rightarrow> simulate g' state' pod ops)"

section \<open>The ancestors of a quota group\<close>

text \<open>
  The chain of groups found from a name by following the parent references, nearest
  first; it ends at a name that is no group of the tree. The ancestors of a group are
  the chain from its parent's name. \<open>checkGroups\<close> is the spec's check of used plus
  request against \<open>Runtime\<close>, on the groups of a list: the first group of the list whose
  \<open>Used\<close> plus the request exceeds its \<open>Runtime\<close> rejects the pod, and a pod that no group
  rejects is accepted.
\<close>

inductive ancestorChain :: "GroupQuotaManager \<Rightarrow> string \<Rightarrow> (string \<times> QuotaInfo) list \<Rightarrow> bool"
  for mgr :: GroupQuotaManager where
    top: "quotaInfoMap mgr name = None \<Longrightarrow> ancestorChain mgr name []"
  | up: "quotaInfoMap mgr name = Some qi \<Longrightarrow> ancestorChain mgr (ParentName qi) chain \<Longrightarrow>
         ancestorChain mgr name ((name, qi) # chain)"

definition withinRuntime :: "ResourceList \<Rightarrow> QuotaInfo \<Rightarrow> bool" where
  "withinRuntime podRequest qi = fst (LessThanOrEqual (Add podRequest (Used qi)) (Runtime qi))"

definition checkGroups :: "(string \<times> QuotaInfo) list \<Rightarrow> ResourceList \<Rightarrow> Status" where
  "checkGroups groups podRequest =
     (case find (\<lambda>(name, qi). \<not> withinRuntime podRequest qi) groups of
        None \<Rightarrow> NewStatus Success (Text '''')
      | Some (name, qi) \<Rightarrow>
          NewStatus Unschedulable
            (InsufficientQuotas name (Runtime qi) (Used qi) podRequest
               (snd (LessThanOrEqual (Add podRequest (Used qi)) (Runtime qi)))))"

section \<open>Example trees, pods and attempts\<close>

text \<open>A tenant \<open>team-a\<close> with \<open>Used = 45\<close> and \<open>Runtime = 50\<close> (cpu) under a parent \<open>org\<close>
  with \<open>Used = 98\<close> and \<open>Runtime = 100\<close>, and the tenant \<open>default\<close>. The tenant tracks one
  workload, \<open>pod-a\<close>, of 45 cpu.\<close>

definition teamA :: QuotaInfo where
  "teamA = \<lparr>Name = ''team-a'', ParentName = ''org'', Used = [(''cpu'', 45)],
            Request = [(''cpu'', 45)], Runtime = [(''cpu'', 50)],
            assignments = [''pod-a'' \<mapsto> [(''cpu'', 45)]]\<rparr>"

definition org :: QuotaInfo where
  "org = \<lparr>Name = ''org'', ParentName = '''', Used = [(''cpu'', 98)],
          Request = [(''cpu'', 98)], Runtime = [(''cpu'', 100)], assignments = Map.empty\<rparr>"

definition defaultQuota :: QuotaInfo where
  "defaultQuota = \<lparr>Name = ''default'', ParentName = '''', Used = [(''cpu'', 1)],
          Request = [(''cpu'', 1)], Runtime = [(''cpu'', 8)], assignments = Map.empty\<rparr>"

definition exampleManager :: GroupQuotaManager where
  "exampleManager =
     \<lparr>quotaInfoMap = [''team-a'' \<mapsto> teamA, ''org'' \<mapsto> org, ''default'' \<mapsto> defaultQuota],
      runtimeCalculator = (\<lambda>tree name. Map.empty), dirty = False, strictMode = False\<rparr>"

definition examplePlugin :: "bool \<Rightarrow> Plugin" where
  "examplePlugin checkParent =
     \<lparr>pluginArgs = \<lparr>EnableCheckParentQuota = checkParent\<rparr>, groupQuotaManager = exampleManager\<rparr>"

definition examplePod :: "string \<Rightarrow> string \<Rightarrow> bool \<Rightarrow> int \<Rightarrow> Pod" where
  "examplePod key quota reserve n =
     \<lparr>podKey = key, quotaLabel = quota, reservePod = reserve, requests = [(''cpu'', n)]\<rparr>"

text \<open>The cycle state of an attempt admitted against \<open>team-a\<close>.\<close>

definition exampleState :: CycleState where
  "exampleState = snd (snapshotPostFilterState teamA Map.empty)"



text \<open>The example tree under the strict fallback policy.\<close>

definition strictPlugin :: Plugin where
  "strictPlugin =
     \<lparr>pluginArgs = \<lparr>EnableCheckParentQuota = False\<rparr>,
      groupQuotaManager = exampleManager\<lparr>strictMode := True\<rparr>\<rparr>"

text \<open>A tenant whose \<open>Runtime\<close> lists cpu only, with memory in use, and a pod that
  requests both.\<close>

definition teamM :: QuotaInfo where
  "teamM = \<lparr>Name = ''team-m'', ParentName = '''', Used = [(''cpu'', 45), (''memory'', 10)],
            Request = [(''cpu'', 45), (''memory'', 10)], Runtime = [(''cpu'', 50)],
            assignments = Map.empty\<rparr>"

definition memoryPlugin :: Plugin where
  "memoryPlugin =
     \<lparr>pluginArgs = \<lparr>EnableCheckParentQuota = False\<rparr>,
      groupQuotaManager =
        \<lparr>quotaInfoMap = [''team-m'' \<mapsto> teamM], runtimeCalculator = (\<lambda>tree name. Map.empty),
         dirty = False, strictMode = False\<rparr>\<rparr>"

definition memoryPod :: Pod where
  "memoryPod = \<lparr>podKey = ''pod-m'', quotaLabel = ''team-m'', reservePod = False,
                requests = [(''cpu'', 5), (''memory'', 100)]\<rparr>"

section \<open>Resource list arithmetic\<close>

lemma map_of_filter_key:
  "map_of (filter (\<lambda>(key, value). P key) b) k = (if P k then map_of b k else None)"
  by (induction b) auto

lemma map_of_map_value:
  "map_of (map (\<lambda>(key, value). (key, f key value)) a) k = map_option (f k) (map_of a k)"
  by (induction a) auto

lemma map_of_Add:
  "map_of (Add a b) k =
     (case map_of a k of
        Some v \<Rightarrow> (case map_of b k of Some other \<Rightarrow> Some (v + other) | None \<Rightarrow> Some v)
      | None \<Rightarrow> map_of b k)"
  by (simp add: Add_def map_add_def map_of_filter_key map_of_map_value split: option.splits)

lemma quantityOf_Add: "quantityOf (Add a b) k = quantityOf a k + quantityOf b k"
  by (simp add: quantityOf_def map_of_Add split: option.splits)

lemma map_of_Subtract:
  "map_of (SubtractWithNonNegativeResult a b) k =
     (case map_of a k of
        Some v \<Rightarrow> Some (max 0 (v - quantityOf b k))
      | None \<Rightarrow> (case map_of b k of Some other \<Rightarrow> Some 0 | None \<Rightarrow> None))"
  by (auto simp add: SubtractWithNonNegativeResult_def map_add_def map_of_filter_key
      map_of_map_value quantityOf_def Let_def max_def split: option.splits)

lemma quantityOf_Subtract:
  "quantityOf (SubtractWithNonNegativeResult a b) k =
     (if map_of a k = None then 0 else max 0 (quantityOf a k - quantityOf b k))"
  by (simp add: quantityOf_def map_of_Subtract split: option.splits)

lemma nonNegative_Add: "nonNegative a \<Longrightarrow> nonNegative b \<Longrightarrow> nonNegative (Add a b)"
  unfolding nonNegative_def Add_def list_all_iff
  by (fastforce split: option.splits dest!: map_of_SomeD)

lemma nonNegative_Subtract: "nonNegative (SubtractWithNonNegativeResult a b)"
  unfolding nonNegative_def SubtractWithNonNegativeResult_def list_all_iff
  by (auto simp: Let_def)

lemma nonNegative_quantityOf: "nonNegative a \<Longrightarrow> 0 \<le> quantityOf a k"
  unfolding nonNegative_def quantityOf_def list_all_iff
  by (auto split: option.splits dest!: map_of_SomeD)

section \<open>The simulated operations on the per-attempt state\<close>

lemma getPostFilterState_update:
  "getPostFilterState (state(postFilterKey \<mapsto> s)) = Inr s"
  by (simp add: getPostFilterState_def)

lemma AddPod_Inr:
  "getPostFilterState state = Inr s \<Longrightarrow>
   AddPod g state pod p =
     (if IsReservePod p then (NilStatus, g, state)
      else if IsPodExist (quotaInfo s) p then
        (NewStatus Success (Text ''''), g,
         state(postFilterKey \<mapsto> s\<lparr>used := Add (used s) (PodRequestsAndLimits p)\<rparr>))
      else (NewStatus Success (Text ''''), g, state))"
  by (simp add: AddPod_def)

lemma RemovePod_Inr:
  "getPostFilterState state = Inr s \<Longrightarrow>
   RemovePod g state pod p =
     (if IsReservePod p then (NilStatus, g, state)
      else if IsPodExist (quotaInfo s) p then
        (NewStatus Success (Text ''''), g,
         state(postFilterKey \<mapsto> s\<lparr>used :=
           SubtractWithNonNegativeResult (used s) (PodRequestsAndLimits p)\<rparr>))
      else (NewStatus Success (Text ''''), g, state))"
  by (simp add: RemovePod_def)

lemma AddPod_plugin: "fst (snd (AddPod g state pod p)) = g"
  by (simp add: AddPod_def split: sum.splits)

lemma RemovePod_plugin: "fst (snd (RemovePod g state pod p)) = g"
  by (simp add: RemovePod_def split: sum.splits)

lemma AddPod_nonNegative:
  "getPostFilterState state = Inr s \<Longrightarrow> nonNegative (used s) \<Longrightarrow>
   nonNegative (PodRequestsAndLimits p) \<Longrightarrow>
   \<exists>s1. getPostFilterState (snd (snd (AddPod g state pod p))) = Inr s1 \<and> nonNegative (used s1)"
  by (simp add: AddPod_Inr nonNegative_Add getPostFilterState_update)

lemma RemovePod_nonNegative:
  "getPostFilterState state = Inr s \<Longrightarrow> nonNegative (used s) \<Longrightarrow>
   \<exists>s1. getPostFilterState (snd (snd (RemovePod g state pod p))) = Inr s1 \<and> nonNegative (used s1)"
  by (simp add: RemovePod_Inr nonNegative_Subtract getPostFilterState_update)

lemma exampleState_Inr:
  "getPostFilterState exampleState =
     Inr \<lparr>quotaInfo = teamA, used = [(''cpu'', 45)], runtime = [(''cpu'', 50)]\<rparr>"
  by (simp add: exampleState_def snapshotPostFilterState_def getPostFilterState_def teamA_def Let_def)

lemma simulate_nonNegative:
  "getPostFilterState state = Inr s \<Longrightarrow> nonNegative (used s) \<Longrightarrow>
   list_all (\<lambda>op. nonNegative (PodRequestsAndLimits (opPod op))) ops \<Longrightarrow>
   \<exists>s'. getPostFilterState (simulate g state pod ops) = Inr s' \<and> nonNegative (used s')"
proof (induction ops arbitrary: state s g)
  case Nil
  then show ?case by simp
next
  case (Cons op ops)
  have rest: "list_all (\<lambda>op. nonNegative (PodRequestsAndLimits (opPod op))) ops"
    using Cons.prems(3) by simp
  show ?case
  proof (cases op)
    case (SimulatedAdd p)
    have req: "nonNegative (PodRequestsAndLimits p)"
      using Cons.prems(3) SimulatedAdd by simp
    obtain s1 where s1: "getPostFilterState (snd (snd (AddPod g state pod p))) = Inr s1"
      and nn: "nonNegative (used s1)"
      using AddPod_nonNegative [OF Cons.prems(1,2) req] by blast
    have "\<exists>s'. getPostFilterState (simulate (fst (snd (AddPod g state pod p)))
             (snd (snd (AddPod g state pod p))) pod ops) = Inr s' \<and> nonNegative (used s')"
      using Cons.IH [OF s1 nn rest] .
    then show ?thesis
      using SimulatedAdd by (simp add: case_prod_beta)
  next
    case (SimulatedRemove p)
    obtain s1 where s1: "getPostFilterState (snd (snd (RemovePod g state pod p))) = Inr s1"
      and nn: "nonNegative (used s1)"
      using RemovePod_nonNegative [OF Cons.prems(1,2)] by blast
    have "\<exists>s'. getPostFilterState (simulate (fst (snd (RemovePod g state pod p)))
             (snd (snd (RemovePod g state pod p))) pod ops) = Inr s' \<and> nonNegative (used s')"
      using Cons.IH [OF s1 nn rest] .
    then show ?thesis
      using SimulatedRemove by (simp add: case_prod_beta)
  qed
qed

lemma quantityOf_Add_Subtract:
  "nonNegative a \<Longrightarrow> quantityOf (SubtractWithNonNegativeResult (Add a b) b) k = quantityOf a k"
proof -
  assume nn: "nonNegative a"
  have step: "quantityOf (SubtractWithNonNegativeResult (Add a b) b) k =
                (if map_of (Add a b) k = None then 0 else max 0 (quantityOf a k))"
    by (simp add: quantityOf_Subtract quantityOf_Add)
  have absent: "map_of (Add a b) k = None \<Longrightarrow> quantityOf a k = 0"
    by (simp add: map_of_Add quantityOf_def split: option.splits)
  show ?thesis
    using step absent nonNegative_quantityOf [OF nn, of k] by (simp add: max_def)
qed

lemma quantityOf_Subtract_Add:
  "nonNegative b \<Longrightarrow> (\<forall>k. quantityOf b k \<le> quantityOf a k) \<Longrightarrow>
   quantityOf (Add (SubtractWithNonNegativeResult a b) b) k = quantityOf a k"
proof -
  assume nn: "nonNegative b" and le: "\<forall>k. quantityOf b k \<le> quantityOf a k"
  have b0: "0 \<le> quantityOf b k" using nn by (rule nonNegative_quantityOf)
  have ba: "quantityOf b k \<le> quantityOf a k" using le by blast
  show ?thesis
  proof (cases "map_of a k")
    case None
    then have "quantityOf a k = 0" by (simp add: quantityOf_def)
    with b0 ba have "quantityOf b k = 0" by simp
    with None \<open>quantityOf a k = 0\<close> show ?thesis
      by (simp add: quantityOf_Add quantityOf_Subtract)
  next
    case (Some v)
    then show ?thesis
      using ba by (simp add: quantityOf_Add quantityOf_Subtract max_def)
  qed
qed

lemma AddPod_then_RemovePod:
  assumes "getPostFilterState state = Inr s" and "nonNegative (used s)"
  shows "\<exists>s'. getPostFilterState
                (snd (snd (RemovePod g (snd (snd (AddPod g state pod p))) pod p))) = Inr s'
              \<and> quotaInfo s' = quotaInfo s \<and> runtime s' = runtime s
              \<and> (\<forall>key. quantityOf (used s') key = quantityOf (used s) key)"
proof (cases "\<not> IsReservePod p \<and> IsPodExist (quotaInfo s) p")
  case False
  then show ?thesis
    using assms(1) by (auto simp: AddPod_Inr RemovePod_Inr)
next
  case True
  let ?s1 = "s\<lparr>used := Add (used s) (PodRequestsAndLimits p)\<rparr>"
  let ?state1 = "state(postFilterKey \<mapsto> ?s1)"
  have add: "snd (snd (AddPod g state pod p)) = ?state1"
    using True assms(1) by (simp add: AddPod_Inr)
  have s1: "getPostFilterState ?state1 = Inr ?s1"
    by (rule getPostFilterState_update)
  have "snd (snd (RemovePod g ?state1 pod p)) =
          ?state1(postFilterKey \<mapsto> ?s1\<lparr>used :=
             SubtractWithNonNegativeResult (used ?s1) (PodRequestsAndLimits p)\<rparr>)"
    using True by (simp add: RemovePod_Inr [OF s1])
  then show ?thesis
    using assms(2) by (simp add: add getPostFilterState_update quantityOf_Add_Subtract)
qed

lemma RemovePod_then_AddPod:
  assumes "getPostFilterState state = Inr s"
    and "nonNegative (PodRequestsAndLimits p)"
    and "\<forall>key. quantityOf (PodRequestsAndLimits p) key \<le> quantityOf (used s) key"
  shows "\<exists>s'. getPostFilterState
                (snd (snd (AddPod g (snd (snd (RemovePod g state pod p))) pod p))) = Inr s'
              \<and> quotaInfo s' = quotaInfo s \<and> runtime s' = runtime s
              \<and> (\<forall>key. quantityOf (used s') key = quantityOf (used s) key)"
proof (cases "\<not> IsReservePod p \<and> IsPodExist (quotaInfo s) p")
  case False
  then show ?thesis
    using assms(1) by (auto simp: AddPod_Inr RemovePod_Inr)
next
  case True
  let ?s1 = "s\<lparr>used := SubtractWithNonNegativeResult (used s) (PodRequestsAndLimits p)\<rparr>"
  let ?state1 = "state(postFilterKey \<mapsto> ?s1)"
  have rem: "snd (snd (RemovePod g state pod p)) = ?state1"
    using True assms(1) by (simp add: RemovePod_Inr)
  have s1: "getPostFilterState ?state1 = Inr ?s1"
    by (rule getPostFilterState_update)
  have "snd (snd (AddPod g ?state1 pod p)) =
          ?state1(postFilterKey \<mapsto> ?s1\<lparr>used := Add (used ?s1) (PodRequestsAndLimits p)\<rparr>)"
    using True by (simp add: AddPod_Inr [OF s1])
  then show ?thesis
    using assms(2,3) by (simp add: rem getPostFilterState_update quantityOf_Subtract_Add)
qed

section \<open>The comparison against the runtime\<close>

lemma LessThanOrEqual_fst: "fst (LessThanOrEqual a b) \<longleftrightarrow> snd (LessThanOrEqual a b) = []"
  by (simp add: LessThanOrEqual_def Let_def)

lemma LessThanOrEqual_snd: "set (snd (LessThanOrEqual a b)) = {key. exceedsIn a b key}"
  by (auto simp: LessThanOrEqual_def Let_def exceedsIn_def list_ex_iff image_iff
      split: option.splits)

lemma LessThanOrEqual_exceedsIn: "fst (LessThanOrEqual a b) \<longleftrightarrow> (\<forall>key. \<not> exceedsIn a b key)"
proof -
  have "fst (LessThanOrEqual a b) \<longleftrightarrow> set (snd (LessThanOrEqual a b)) = {}"
    by (simp add: LessThanOrEqual_fst)
  then show ?thesis
    by (simp add: LessThanOrEqual_snd)
qed

section \<open>Refreshing the runtime\<close>

lemma RefreshRuntime_lookup:
  "quotaInfoMap (RefreshRuntime mgr name) n =
     map_option (\<lambda>qi. if dirty mgr then
                         (case runtimeCalculator mgr (quotaInfoMap mgr) name n of
                            None \<Rightarrow> qi | Some r \<Rightarrow> qi\<lparr>Runtime := r\<rparr>)
                       else qi) (quotaInfoMap mgr n)"
  by (simp add: RefreshRuntime_def split: option.splits)

lemma RefreshRuntime_None:
  "quotaInfoMap (RefreshRuntime mgr name) n = None \<longleftrightarrow> quotaInfoMap mgr n = None"
  by (simp add: RefreshRuntime_lookup)




lemma RefreshRuntime_ParentName:
  "map_option ParentName (quotaInfoMap (RefreshRuntime mgr name) n)
     = map_option ParentName (quotaInfoMap mgr n)"
  by (cases "quotaInfoMap mgr n") (simp_all add: RefreshRuntime_lookup split: option.splits)

lemma RefreshRuntime_strictMode: "strictMode (RefreshRuntime mgr name) = strictMode mgr"
  by (simp add: RefreshRuntime_def)

section \<open>Admission\<close>

lemma PreFilter_not_found:
  "GetQuotaInfoByName (RefreshRuntime (groupQuotaManager g) (getPodAssociateQuotaName g pod))
     (getPodAssociateQuotaName g pod) = None \<Longrightarrow>
   PreFilter g cycleState pod =
     Some (NewStatus Error (Text ''Could not find the specified ElasticQuota''),
           g\<lparr>groupQuotaManager :=
               RefreshRuntime (groupQuotaManager g) (getPodAssociateQuotaName g pod)\<rparr>,
           cycleState)"
  by (simp add: PreFilter_def Let_def)

lemma PreFilter_found:
  "GetQuotaInfoByName (RefreshRuntime (groupQuotaManager g) (getPodAssociateQuotaName g pod))
     (getPodAssociateQuotaName g pod) = Some qi \<Longrightarrow>
   PreFilter g cycleState pod =
     (if \<not> fst (LessThanOrEqual (Add (PodRequestsAndLimits pod) (Used qi)) (Runtime qi)) then
        Some (NewStatus Unschedulable
                (InsufficientQuotas (getPodAssociateQuotaName g pod) (Runtime qi) (Used qi)
                   (PodRequestsAndLimits pod)
                   (snd (LessThanOrEqual (Add (PodRequestsAndLimits pod) (Used qi)) (Runtime qi)))),
              g\<lparr>groupQuotaManager :=
                  RefreshRuntime (groupQuotaManager g) (getPodAssociateQuotaName g pod)\<rparr>,
              cycleState(postFilterKey \<mapsto> \<lparr>quotaInfo = qi, used = Used qi, runtime = Runtime qi\<rparr>))
      else if EnableCheckParentQuota (pluginArgs g) then
        map_option (\<lambda>status. (status,
              g\<lparr>groupQuotaManager :=
                  RefreshRuntime (groupQuotaManager g) (getPodAssociateQuotaName g pod)\<rparr>,
              cycleState(postFilterKey \<mapsto> \<lparr>quotaInfo = qi, used = Used qi, runtime = Runtime qi\<rparr>)))
          (checkQuotaRecursive
             (RefreshRuntime (groupQuotaManager g) (getPodAssociateQuotaName g pod))
             (getPodAssociateQuotaName g pod) [getPodAssociateQuotaName g pod]
             (PodRequestsAndLimits pod))
      else
        Some (NewStatus Success (Text ''''),
              g\<lparr>groupQuotaManager :=
                  RefreshRuntime (groupQuotaManager g) (getPodAssociateQuotaName g pod)\<rparr>,
              cycleState(postFilterKey \<mapsto> \<lparr>quotaInfo = qi, used = Used qi, runtime = Runtime qi\<rparr>)))"
  by (simp add: PreFilter_def Let_def snapshotPostFilterState_def split: prod.splits)


lemma exceedsIn_same:
  assumes "distinct (map fst b)" and "map_of a = map_of b"
  shows "\<not> exceedsIn a b key"
proof
  assume "exceedsIn a b key"
  then obtain v where "(key, v) \<in> set b"
    and lt: "case map_of a key of Some other \<Rightarrow> v < other | None \<Rightarrow> False"
    by (auto simp: exceedsIn_def list_ex_iff)
  then have "map_of b key = Some v"
    using assms(1) by simp
  then show False
    using lt assms(2) by simp
qed

lemma examplePlugin_found:
  "GetQuotaInfoByName
     (RefreshRuntime (groupQuotaManager (examplePlugin flag))
        (getPodAssociateQuotaName (examplePlugin flag) (examplePod key ''team-a'' reserve n)))
     (getPodAssociateQuotaName (examplePlugin flag) (examplePod key ''team-a'' reserve n))
   = Some teamA"
  by (simp add: GetQuotaInfoByName_def RefreshRuntime_def examplePlugin_def exampleManager_def
      getPodAssociateQuotaName_def examplePod_def)

lemma RefreshRuntime_exampleManager: "RefreshRuntime exampleManager name = exampleManager"
  by (simp add: RefreshRuntime_def exampleManager_def)

lemma checkQuotaRecursive_org:
  "checkQuotaRecursive exampleManager ''org'' topo req = Some (NewStatus Success (Text ''''))"
  by (subst checkQuotaRecursive.simps)
     (simp add: GetQuotaInfoByName_def exampleManager_def org_def)

lemma checkQuotaRecursive_teamA:
  "checkQuotaRecursive exampleManager ''team-a'' [''team-a''] [(''cpu'', n)] =
     Some (if 2 < n then
             NewStatus Unschedulable
               (InsufficientQuotas ''org'' [(''cpu'', 100)] [(''cpu'', 98)] [(''cpu'', n)] [''cpu''])
           else NewStatus Success (Text ''''))"
  apply (subst checkQuotaRecursive.simps)
  apply (simp add: GetQuotaInfoByName_def exampleManager_def teamA_def org_def
      LessThanOrEqual_def Add_def Let_def)
  apply (simp add: checkQuotaRecursive_org [unfolded exampleManager_def teamA_def org_def])
  done

lemma examplePod_reads:
  "getPodAssociateQuotaName g (examplePod key quota reserve n) = quota"
  "PodRequestsAndLimits (examplePod key quota reserve n) = [(''cpu'', n)]"
  "IsReservePod (examplePod key quota reserve n) = reserve"
  "podKey (examplePod key quota reserve n) = key"
  by (simp_all add: getPodAssociateQuotaName_def PodRequestsAndLimits_def IsReservePod_def
      examplePod_def)

lemma examplePlugin_reads:
  "groupQuotaManager (examplePlugin flag) = exampleManager"
  "EnableCheckParentQuota (pluginArgs (examplePlugin flag)) = flag"
  by (simp_all add: examplePlugin_def)

lemma teamA_reads:
  "Used teamA = [(''cpu'', 45)]" "Runtime teamA = [(''cpu'', 50)]" "ParentName teamA = ''org''"
  by (simp_all add: teamA_def)





section \<open>Reserving and unreserving\<close>


lemma GetQuotaInfoByName_update:
  assumes "GetQuotaInfoByName mgr name = Some qi"
  shows "GetQuotaInfoByName
           (mgr\<lparr>quotaInfoMap := (quotaInfoMap mgr)(resolvedName mgr name \<mapsto> qi')\<rparr>) name = Some qi'"
    and "resolvedName (mgr\<lparr>quotaInfoMap := (quotaInfoMap mgr)(resolvedName mgr name \<mapsto> qi')\<rparr>) name
           = resolvedName mgr name"
  using assms
  by (auto simp: GetQuotaInfoByName_def resolvedName_def split: option.splits if_splits)

lemma Reserve_untracked:
  "GetQuotaInfoByName (groupQuotaManager g) (getPodAssociateQuotaName g p) = Some qi \<Longrightarrow>
   \<not> IsPodExist qi p \<Longrightarrow>
   groupQuotaManager (snd (Reserve g p)) =
     (groupQuotaManager g)\<lparr>quotaInfoMap :=
        (quotaInfoMap (groupQuotaManager g))
          (resolvedName (groupQuotaManager g) (getPodAssociateQuotaName g p) \<mapsto>
             qi\<lparr>Used := Add (Used qi) (PodRequestsAndLimits p),
                Request := Add (Request qi) (PodRequestsAndLimits p),
                assignments := (assignments qi)(podKey p \<mapsto> PodRequestsAndLimits p)\<rparr>)\<rparr>"
  by (simp add: Reserve_def ReservePod_def Let_def)

lemma Unreserve_tracked:
  "GetQuotaInfoByName (groupQuotaManager g) (getPodAssociateQuotaName g p) = Some qi \<Longrightarrow>
   IsPodExist qi p \<Longrightarrow>
   groupQuotaManager (Unreserve g p) =
     (groupQuotaManager g)\<lparr>quotaInfoMap :=
        (quotaInfoMap (groupQuotaManager g))
          (resolvedName (groupQuotaManager g) (getPodAssociateQuotaName g p) \<mapsto>
             qi\<lparr>Used := SubtractWithNonNegativeResult (Used qi) (PodRequestsAndLimits p),
                Request := SubtractWithNonNegativeResult (Request qi) (PodRequestsAndLimits p),
                assignments := (assignments qi)(podKey p := None)\<rparr>)\<rparr>"
  by (simp add: Unreserve_def UnreservePod_def Let_def)


lemma Reserve_tracked:
  "GetQuotaInfoByName (groupQuotaManager g) (getPodAssociateQuotaName g p) = Some qi \<Longrightarrow>
   IsPodExist qi p \<Longrightarrow> snd (Reserve g p) = g"
  by (simp add: Reserve_def ReservePod_def Let_def)

lemma getPodAssociateQuotaName_plugin:
  "getPodAssociateQuotaName g' p = getPodAssociateQuotaName g p"
  by (simp add: getPodAssociateQuotaName_def)



section \<open>What refreshing the runtime leaves alone\<close>



section \<open>The check of the ancestors\<close>

lemma GetQuotaInfoByName_known:
  "quotaInfoMap mgr name = Some qi \<Longrightarrow> GetQuotaInfoByName mgr name = Some qi"
  by (simp add: GetQuotaInfoByName_def)

lemma checkGroups_Nil: "checkGroups [] req = NewStatus Success (Text '''')"
  by (simp add: checkGroups_def)

lemma checkGroups_Cons:
  "checkGroups ((name, qi) # groups) req =
     (if \<not> fst (LessThanOrEqual (Add req (Used qi)) (Runtime qi))
      then NewStatus Unschedulable
             (InsufficientQuotas name (Runtime qi) (Used qi) req
                (snd (LessThanOrEqual (Add req (Used qi)) (Runtime qi))))
      else checkGroups groups req)"
  by (simp add: checkGroups_def withinRuntime_def)

lemma checkQuotaRecursive_chain:
  "ancestorChain mgr n chain \<Longrightarrow> GetQuotaInfoByName mgr cur = Some qi \<Longrightarrow> ParentName qi = n \<Longrightarrow>
   checkQuotaRecursive mgr cur topo req = Some (checkGroups chain req)"
proof (induction arbitrary: cur qi topo rule: ancestorChain.induct)
  case (top name)
  then show ?case
    by (subst checkQuotaRecursive.simps) (simp add: checkGroups_Nil)
next
  case (up name parent chain)
  have next_call: "checkQuotaRecursive mgr name (name # topo) req = Some (checkGroups chain req)"
    using up.IH [of name parent "name # topo"] up.hyps(1)
    by (simp add: GetQuotaInfoByName_known)
  show ?case
    using up.prems up.hyps(1) next_call
    by (subst checkQuotaRecursive.simps) (simp add: checkGroups_Cons)
qed

lemma checkGroups_Success:
  "checkGroups groups req = NewStatus Success (Text '''') \<longleftrightarrow>
   list_all (\<lambda>(name, qi). withinRuntime req qi) groups"
proof (induction groups)
  case Nil
  then show ?case by (simp add: checkGroups_Nil)
next
  case (Cons group groups)
  then show ?case
    by (cases group) (simp add: checkGroups_Cons withinRuntime_def)
qed

lemma exampleManager_chain: "ancestorChain exampleManager ''org'' [(''org'', org)]"
proof -
  have "ancestorChain exampleManager (ParentName org) []"
    by (rule ancestorChain.top) (simp add: exampleManager_def org_def)
  then show ?thesis
    by (rule ancestorChain.up [rotated]) (simp add: exampleManager_def)
qed


lemma strictPlugin_reads:
  "strictMode (groupQuotaManager strictPlugin)"
  "quotaInfoMap (groupQuotaManager strictPlugin) = quotaInfoMap exampleManager"
  by (simp_all add: strictPlugin_def)

lemma exampleManager_reads:
  "quotaInfoMap exampleManager ''team-x'' = None"
  "quotaInfoMap exampleManager DefaultQuotaName = Some defaultQuota"
  "\<not> strictMode exampleManager"
  by (simp_all add: exampleManager_def DefaultQuotaName_def)

lemma defaultQuota_reads:
  "Used defaultQuota = [(''cpu'', 1)]" "Runtime defaultQuota = [(''cpu'', 8)]"
  "ParentName defaultQuota = ''''"
  by (simp_all add: defaultQuota_def)

lemma checkQuotaRecursive_teamX:
  "checkQuotaRecursive exampleManager ''team-x'' topo req = Some (NewStatus Success (Text ''''))"
  by (subst checkQuotaRecursive.simps)
     (simp add: GetQuotaInfoByName_def exampleManager_def DefaultQuotaName_def defaultQuota_def)

lemma exceedsIn_unlisted: "map_of b key = None \<Longrightarrow> \<not> exceedsIn a b key"
  by (auto simp: exceedsIn_def list_ex_iff map_of_eq_None_iff image_iff)

lemma memoryPlugin_found:
  "GetQuotaInfoByName
     (RefreshRuntime (groupQuotaManager memoryPlugin)
        (getPodAssociateQuotaName memoryPlugin memoryPod))
     (getPodAssociateQuotaName memoryPlugin memoryPod) = Some teamM"
  by (simp add: GetQuotaInfoByName_def RefreshRuntime_def memoryPlugin_def memoryPod_def
      getPodAssociateQuotaName_def)

lemma memory_reads:
  "PodRequestsAndLimits memoryPod = [(''cpu'', 5), (''memory'', 100)]"
  "Used teamM = [(''cpu'', 45), (''memory'', 10)]"
  "Runtime teamM = [(''cpu'', 50)]"
  "EnableCheckParentQuota (pluginArgs memoryPlugin) = False"
  by (simp_all add: PodRequestsAndLimits_def memoryPod_def teamM_def memoryPlugin_def)

section \<open>The claims\<close>

text \<open>
  C9. The per-attempt simulated used vector never goes negative. For an attempt whose
  used vector has no negative entry, and simulated pods whose requests have none (the
  quantities of a request are never negative), after any sequence of \<^verbatim>\<open>AddPod\<close> and
  \<^verbatim>\<open>RemovePod\<close> calls the attempt still has its state, and every resource dimension of
  its used vector is greater than or equal to zero. The removal subtracts with a floor
  at zero: after \<^verbatim>\<open>RemovePod\<close> of a tracked pod that is no reservation pod, no entry
  of the used vector is negative, whatever the vector and the request were.
\<close>

theorem simulate_used_never_negative:
  "(getPostFilterState state = Inr s \<and> nonNegative (used s)
      \<and> list_all (\<lambda>op. nonNegative (PodRequestsAndLimits (opPod op))) ops \<longrightarrow>
      (\<exists>s'. getPostFilterState (simulate g state pod ops) = Inr s'
            \<and> nonNegative (used s') \<and> (\<forall>key. 0 \<le> quantityOf (used s') key)))
   \<and> (getPostFilterState state = Inr s \<and> \<not> IsReservePod p \<and> IsPodExist (quotaInfo s) p \<longrightarrow>
      (\<exists>s'. getPostFilterState (snd (snd (RemovePod g state pod p))) = Inr s'
            \<and> used s' = SubtractWithNonNegativeResult (used s) (PodRequestsAndLimits p)
            \<and> nonNegative (used s')))"
proof (intro conjI impI)
  assume a: "getPostFilterState state = Inr s \<and> nonNegative (used s)
             \<and> list_all (\<lambda>op. nonNegative (PodRequestsAndLimits (opPod op))) ops"
  then obtain s' where "getPostFilterState (simulate g state pod ops) = Inr s'"
    and "nonNegative (used s')"
    using simulate_nonNegative [of state s ops g pod] by blast
  then show "\<exists>s'. getPostFilterState (simulate g state pod ops) = Inr s'
              \<and> nonNegative (used s') \<and> (\<forall>key. 0 \<le> quantityOf (used s') key)"
    by (auto intro: nonNegative_quantityOf)
next
  assume "getPostFilterState state = Inr s \<and> \<not> IsReservePod p \<and> IsPodExist (quotaInfo s) p"
  then show "\<exists>s'. getPostFilterState (snd (snd (RemovePod g state pod p))) = Inr s'
              \<and> used s' = SubtractWithNonNegativeResult (used s) (PodRequestsAndLimits p)
              \<and> nonNegative (used s')"
    by (simp add: RemovePod_Inr getPostFilterState_update nonNegative_Subtract)
qed

theorem simulate_used_never_negative_witness:
  "getPostFilterState exampleState =
     Inr \<lparr>quotaInfo = teamA, used = [(''cpu'', 45)], runtime = [(''cpu'', 50)]\<rparr>
   \<and> nonNegative [(''cpu'', 45)]
   \<and> list_all (\<lambda>op. nonNegative (PodRequestsAndLimits (opPod op)))
       [SimulatedRemove (examplePod ''pod-a'' ''team-a'' False 45),
        SimulatedRemove (examplePod ''pod-a'' ''team-a'' False 45),
        SimulatedAdd (examplePod ''pod-a'' ''team-a'' False 45)]
   \<and> (\<exists>s'. getPostFilterState
              (simulate (examplePlugin False) exampleState (examplePod ''pod-b'' ''team-a'' False 5)
                 [SimulatedRemove (examplePod ''pod-a'' ''team-a'' False 45),
                  SimulatedRemove (examplePod ''pod-a'' ''team-a'' False 45),
                  SimulatedAdd (examplePod ''pod-a'' ''team-a'' False 45)]) = Inr s'
            \<and> nonNegative (used s') \<and> (\<forall>key. 0 \<le> quantityOf (used s') key))
   \<and> \<not> IsReservePod (examplePod ''pod-a'' ''team-a'' False 45)
   \<and> IsPodExist teamA (examplePod ''pod-a'' ''team-a'' False 45)
   \<and> (\<exists>s'. getPostFilterState
              (snd (snd (RemovePod (examplePlugin False) exampleState
                 (examplePod ''pod-b'' ''team-a'' False 5) (examplePod ''pod-a'' ''team-a'' False 45))))
              = Inr s'
            \<and> nonNegative (used s'))"
proof -
  let ?s = "\<lparr>quotaInfo = teamA, used = [(''cpu'', 45)], runtime = [(''cpu'', 50)]\<rparr>"
  let ?a = "examplePod ''pod-a'' ''team-a'' False 45"
  let ?ops = "[SimulatedRemove ?a, SimulatedRemove ?a, SimulatedAdd ?a]"
  have h1: "getPostFilterState exampleState = Inr ?s"
    by (rule exampleState_Inr)
  have nn: "nonNegative [(''cpu'', 45)]"
    by (simp add: nonNegative_def)
  then have h2: "nonNegative (used ?s)"
    by simp
  have h3: "list_all (\<lambda>op. nonNegative (PodRequestsAndLimits (opPod op))) ?ops"
    by (simp add: nonNegative_def PodRequestsAndLimits_def examplePod_def)
  have a1: "\<not> IsReservePod ?a"
    by (simp add: IsReservePod_def examplePod_def)
  have a2: "IsPodExist teamA ?a"
    by (simp add: IsPodExist_def examplePod_def teamA_def)
  then have a3: "IsPodExist (quotaInfo ?s) ?a"
    by simp
  note inst = simulate_used_never_negative
                [where state = exampleState and s = ?s and ops = ?ops and p = ?a
                   and g = "examplePlugin False" and pod = "examplePod ''pod-b'' ''team-a'' False 5"]
  have c1: "\<exists>s'. getPostFilterState
              (simulate (examplePlugin False) exampleState (examplePod ''pod-b'' ''team-a'' False 5)
                 ?ops) = Inr s'
            \<and> nonNegative (used s') \<and> (\<forall>key. 0 \<le> quantityOf (used s') key)"
    using inst h1 h2 h3 by blast
  have c2: "\<exists>s'. getPostFilterState
              (snd (snd (RemovePod (examplePlugin False) exampleState
                 (examplePod ''pod-b'' ''team-a'' False 5) ?a))) = Inr s'
            \<and> nonNegative (used s')"
    using inst h1 a1 a3 by blast
  show ?thesis
    using h1 nn h3 c1 a1 a2 c2 by blast
qed

text \<open>
  C10. \<^verbatim>\<open>AddPod\<close> and \<^verbatim>\<open>RemovePod\<close> are no-ops that return success and leave the
  per-attempt state unchanged whenever the candidate pod is a reservation pod (the
  status is then the nil status, which the framework reads as success) or, in an
  attempt that has its state, is not tracked by the tenant's \<^verbatim>\<open>QuotaInfo\<close>
  (\<^verbatim>\<open>IsPodExist\<close> is false). They change the per-attempt used vector only for a pod that
  is no reservation pod and that the quota tracks.
\<close>

theorem AddPod_RemovePod_noop:
  "(IsReservePod p \<longrightarrow>
      AddPod g state pod p = (NilStatus, g, state)
      \<and> RemovePod g state pod p = (NilStatus, g, state)
      \<and> IsSuccess (fst (AddPod g state pod p)) \<and> IsSuccess (fst (RemovePod g state pod p)))
   \<and> (\<not> IsReservePod p \<and> getPostFilterState state = Inr s \<and> \<not> IsPodExist (quotaInfo s) p \<longrightarrow>
      AddPod g state pod p = (NewStatus Success (Text ''''), g, state)
      \<and> RemovePod g state pod p = (NewStatus Success (Text ''''), g, state)
      \<and> IsSuccess (fst (AddPod g state pod p)) \<and> IsSuccess (fst (RemovePod g state pod p)))
   \<and> (map_option used (snd (snd (AddPod g state pod p)) postFilterKey)
         \<noteq> map_option used (state postFilterKey)
       \<or> map_option used (snd (snd (RemovePod g state pod p)) postFilterKey)
         \<noteq> map_option used (state postFilterKey) \<longrightarrow>
      \<not> IsReservePod p
      \<and> (\<exists>s'. getPostFilterState state = Inr s' \<and> IsPodExist (quotaInfo s') p))"
proof (intro conjI impI)
  assume "map_option used (snd (snd (AddPod g state pod p)) postFilterKey)
            \<noteq> map_option used (state postFilterKey)
          \<or> map_option used (snd (snd (RemovePod g state pod p)) postFilterKey)
            \<noteq> map_option used (state postFilterKey)"
  then have changed: "snd (snd (AddPod g state pod p)) \<noteq> state
                      \<or> snd (snd (RemovePod g state pod p)) \<noteq> state"
    by auto
  then show "\<not> IsReservePod p"
    by (auto simp: AddPod_def RemovePod_def)
  show "\<exists>s'. getPostFilterState state = Inr s' \<and> IsPodExist (quotaInfo s') p"
    using changed by (cases "getPostFilterState state")
      (auto simp: AddPod_def RemovePod_def split: if_splits)
qed (simp_all add: AddPod_def RemovePod_def IsSuccess_def)

theorem AddPod_RemovePod_noop_witness:
  "IsReservePod (examplePod ''pod-r'' ''team-a'' True 5)
   \<and> AddPod (examplePlugin False) exampleState (examplePod ''pod-b'' ''team-a'' False 5)
        (examplePod ''pod-r'' ''team-a'' True 5) = (NilStatus, examplePlugin False, exampleState)
   \<and> RemovePod (examplePlugin False) exampleState (examplePod ''pod-b'' ''team-a'' False 5)
        (examplePod ''pod-r'' ''team-a'' True 5) = (NilStatus, examplePlugin False, exampleState)
   \<and> \<not> IsReservePod (examplePod ''pod-u'' ''team-a'' False 5)
   \<and> getPostFilterState exampleState =
        Inr \<lparr>quotaInfo = teamA, used = [(''cpu'', 45)], runtime = [(''cpu'', 50)]\<rparr>
   \<and> \<not> IsPodExist teamA (examplePod ''pod-u'' ''team-a'' False 5)
   \<and> AddPod (examplePlugin False) exampleState (examplePod ''pod-b'' ''team-a'' False 5)
        (examplePod ''pod-u'' ''team-a'' False 5)
      = (NewStatus Success (Text ''''), examplePlugin False, exampleState)
   \<and> RemovePod (examplePlugin False) exampleState (examplePod ''pod-b'' ''team-a'' False 5)
        (examplePod ''pod-u'' ''team-a'' False 5)
      = (NewStatus Success (Text ''''), examplePlugin False, exampleState)
   \<and> map_option used (snd (snd (AddPod (examplePlugin False) exampleState
        (examplePod ''pod-b'' ''team-a'' False 5) (examplePod ''pod-a'' ''team-a'' False 45))) postFilterKey)
      = Some [(''cpu'', 90)]
   \<and> map_option used (exampleState postFilterKey) = Some [(''cpu'', 45)]
   \<and> \<not> IsReservePod (examplePod ''pod-a'' ''team-a'' False 45)
   \<and> IsPodExist teamA (examplePod ''pod-a'' ''team-a'' False 45)"
proof -
  let ?g = "examplePlugin False"
  let ?pod = "examplePod ''pod-b'' ''team-a'' False 5"
  let ?s = "\<lparr>quotaInfo = teamA, used = [(''cpu'', 45)], runtime = [(''cpu'', 50)]\<rparr>"
  let ?r = "examplePod ''pod-r'' ''team-a'' True 5"
  let ?u = "examplePod ''pod-u'' ''team-a'' False 5"
  let ?a = "examplePod ''pod-a'' ''team-a'' False 45"
  have st: "getPostFilterState exampleState = Inr ?s"
    by (rule exampleState_Inr)
  have key: "map_option used (exampleState postFilterKey) = Some [(''cpu'', 45)]"
    using st by (simp add: getPostFilterState_def split: option.splits)
  have r: "IsReservePod ?r"
    by (simp add: IsReservePod_def examplePod_def)
  have u1: "\<not> IsReservePod ?u"
    by (simp add: IsReservePod_def examplePod_def)
  have u2: "\<not> IsPodExist teamA ?u"
    by (simp add: IsPodExist_def examplePod_def teamA_def)
  then have u3: "\<not> IsPodExist (quotaInfo ?s) ?u"
    by simp
  have a: "\<not> IsReservePod ?a \<and> IsPodExist (quotaInfo ?s) ?a"
    by (simp add: IsReservePod_def IsPodExist_def examplePod_def teamA_def)
  have added: "map_option used (snd (snd (AddPod ?g exampleState ?pod ?a)) postFilterKey)
                 = Some [(''cpu'', 90)]"
    using a by (simp add: AddPod_Inr [OF st] Add_def PodRequestsAndLimits_def examplePod_def)
  have changed: "map_option used (snd (snd (AddPod ?g exampleState ?pod ?a)) postFilterKey)
                   \<noteq> map_option used (exampleState postFilterKey)"
    by (simp only: added key) simp
  have c1: "AddPod ?g exampleState ?pod ?r = (NilStatus, ?g, exampleState)
            \<and> RemovePod ?g exampleState ?pod ?r = (NilStatus, ?g, exampleState)"
    using AddPod_RemovePod_noop [of ?r ?g exampleState ?pod ?s] r by blast
  have c2: "AddPod ?g exampleState ?pod ?u = (NewStatus Success (Text ''''), ?g, exampleState)
            \<and> RemovePod ?g exampleState ?pod ?u = (NewStatus Success (Text ''''), ?g, exampleState)"
    using AddPod_RemovePod_noop [of ?u ?g exampleState ?pod ?s] u1 u3 st by blast
  have c3: "\<not> IsReservePod ?a
            \<and> (\<exists>s'. getPostFilterState exampleState = Inr s' \<and> IsPodExist (quotaInfo s') ?a)"
    using AddPod_RemovePod_noop [of ?a ?g exampleState ?pod ?s] changed by blast
  then have c4: "IsPodExist teamA ?a"
    by (auto simp: st)
  show ?thesis
    using r u1 u2 st key added c1 c2 c3 c4 by blast
qed

text \<open>
  C4 (amended). \<^verbatim>\<open>AddPod\<close> and \<^verbatim>\<open>RemovePod\<close> never modify the plugin's shared state. In an
  attempt whose used vector has no negative entry, \<^verbatim>\<open>AddPod(p)\<close> followed by
  \<^verbatim>\<open>RemovePod(p)\<close> restores the quantity of every dimension of the per-attempt used
  vector. \<^verbatim>\<open>RemovePod(p)\<close> followed by \<^verbatim>\<open>AddPod(p)\<close> restores it when the used vector
  covers the request of \<open>p\<close> in every dimension; below that, the floor at zero of the
  removal loses the difference.
\<close>

theorem AddPod_RemovePod_reversible:
  "fst (snd (AddPod g state pod p)) = g \<and> fst (snd (RemovePod g state pod p)) = g
   \<and> (getPostFilterState state = Inr s \<and> nonNegative (used s) \<longrightarrow>
        (\<exists>s'. getPostFilterState
                 (snd (snd (RemovePod g (snd (snd (AddPod g state pod p))) pod p))) = Inr s'
              \<and> quotaInfo s' = quotaInfo s \<and> runtime s' = runtime s
              \<and> (\<forall>key. quantityOf (used s') key = quantityOf (used s) key)))
   \<and> (getPostFilterState state = Inr s \<and> nonNegative (PodRequestsAndLimits p)
       \<and> (\<forall>key. quantityOf (PodRequestsAndLimits p) key \<le> quantityOf (used s) key) \<longrightarrow>
        (\<exists>s'. getPostFilterState
                 (snd (snd (AddPod g (snd (snd (RemovePod g state pod p))) pod p))) = Inr s'
              \<and> quotaInfo s' = quotaInfo s \<and> runtime s' = runtime s
              \<and> (\<forall>key. quantityOf (used s') key = quantityOf (used s) key)))"
  using AddPod_plugin [of g state pod p] RemovePod_plugin [of g state pod p]
    AddPod_then_RemovePod [of state s g pod p] RemovePod_then_AddPod [of state s p g pod]
  by blast

theorem AddPod_RemovePod_reversible_witness:
  "fst (snd (AddPod (examplePlugin False) exampleState (examplePod ''pod-b'' ''team-a'' False 5)
       (examplePod ''pod-a'' ''team-a'' False 45))) = examplePlugin False
   \<and> getPostFilterState exampleState =
        Inr \<lparr>quotaInfo = teamA, used = [(''cpu'', 45)], runtime = [(''cpu'', 50)]\<rparr>
   \<and> nonNegative [(''cpu'', 45)]
   \<and> (\<forall>key. quantityOf (PodRequestsAndLimits (examplePod ''pod-a'' ''team-a'' False 45)) key
              \<le> quantityOf [(''cpu'', 45)] key)
   \<and> (\<exists>s'. getPostFilterState
              (snd (snd (RemovePod (examplePlugin False)
                 (snd (snd (AddPod (examplePlugin False) exampleState
                    (examplePod ''pod-b'' ''team-a'' False 5) (examplePod ''pod-a'' ''team-a'' False 45))))
                 (examplePod ''pod-b'' ''team-a'' False 5) (examplePod ''pod-a'' ''team-a'' False 45))))
              = Inr s'
            \<and> (\<forall>key. quantityOf (used s') key = quantityOf [(''cpu'', 45)] key))
   \<and> (\<exists>s'. getPostFilterState
              (snd (snd (AddPod (examplePlugin False)
                 (snd (snd (RemovePod (examplePlugin False) exampleState
                    (examplePod ''pod-b'' ''team-a'' False 5) (examplePod ''pod-a'' ''team-a'' False 45))))
                 (examplePod ''pod-b'' ''team-a'' False 5) (examplePod ''pod-a'' ''team-a'' False 45))))
              = Inr s'
            \<and> (\<forall>key. quantityOf (used s') key = quantityOf [(''cpu'', 45)] key))"
proof -
  let ?g = "examplePlugin False"
  let ?pod = "examplePod ''pod-b'' ''team-a'' False 5"
  let ?a = "examplePod ''pod-a'' ''team-a'' False 45"
  let ?s = "\<lparr>quotaInfo = teamA, used = [(''cpu'', 45)], runtime = [(''cpu'', 50)]\<rparr>"
  have st: "getPostFilterState exampleState = Inr ?s"
    by (rule exampleState_Inr)
  have nn: "nonNegative [(''cpu'', 45)]"
    by (simp add: nonNegative_def)
  then have nn_used: "nonNegative (used ?s)"
    by simp
  have req: "PodRequestsAndLimits ?a = [(''cpu'', 45)]"
    by (simp add: PodRequestsAndLimits_def examplePod_def)
  have nn_req: "nonNegative (PodRequestsAndLimits ?a)"
    by (simp only: req nn)
  have cover: "\<forall>key. quantityOf (PodRequestsAndLimits ?a) key \<le> quantityOf [(''cpu'', 45)] key"
    by (simp add: req)
  then have cover_used: "\<forall>key. quantityOf (PodRequestsAndLimits ?a) key \<le> quantityOf (used ?s) key"
    by simp
  note inst = AddPod_RemovePod_reversible [of ?g exampleState ?pod ?a ?s]
  have c0: "fst (snd (AddPod ?g exampleState ?pod ?a)) = ?g"
    using inst by blast
  have c1: "\<exists>s'. getPostFilterState
              (snd (snd (RemovePod ?g (snd (snd (AddPod ?g exampleState ?pod ?a))) ?pod ?a))) = Inr s'
            \<and> (\<forall>key. quantityOf (used s') key = quantityOf (used ?s) key)"
    using inst st nn_used by blast
  have c2: "\<exists>s'. getPostFilterState
              (snd (snd (AddPod ?g (snd (snd (RemovePod ?g exampleState ?pod ?a))) ?pod ?a))) = Inr s'
            \<and> (\<forall>key. quantityOf (used s') key = quantityOf (used ?s) key)"
    using inst st nn_req cover_used by blast
  have u: "used ?s = [(''cpu'', 45)]"
    by simp
  show ?thesis
    using c0 st nn cover c1 [unfolded u] c2 [unfolded u] by blast
qed

theorem RemovePod_AddPod_counterexample:
  "map_option used
     (snd (snd (RemovePod (examplePlugin False) exampleState
        (examplePod ''pod-b'' ''team-a'' False 5) (examplePod ''pod-a'' ''team-a'' False 45)))
      postFilterKey) = Some [(''cpu'', 0)]
   \<and> map_option used
     (snd (snd (AddPod (examplePlugin False)
        (snd (snd (RemovePod (examplePlugin False)
           (snd (snd (RemovePod (examplePlugin False) exampleState
              (examplePod ''pod-b'' ''team-a'' False 5) (examplePod ''pod-a'' ''team-a'' False 45))))
           (examplePod ''pod-b'' ''team-a'' False 5) (examplePod ''pod-a'' ''team-a'' False 45))))
        (examplePod ''pod-b'' ''team-a'' False 5) (examplePod ''pod-a'' ''team-a'' False 45)))
      postFilterKey) = Some [(''cpu'', 45)]
   \<and> quantityOf [(''cpu'', 45)] ''cpu'' \<noteq> quantityOf [(''cpu'', 0)] ''cpu''"
proof -
  let ?g = "examplePlugin False"
  let ?pod = "examplePod ''pod-b'' ''team-a'' False 5"
  let ?a = "examplePod ''pod-a'' ''team-a'' False 45"
  let ?s = "\<lparr>quotaInfo = teamA, used = [(''cpu'', 45)], runtime = [(''cpu'', 50)]\<rparr>"
  let ?s1 = "\<lparr>quotaInfo = teamA, used = [(''cpu'', 0)], runtime = [(''cpu'', 50)]\<rparr>"
  have st: "getPostFilterState exampleState = Inr ?s"
    by (rule exampleState_Inr)
  have a: "\<not> IsReservePod ?a" "IsPodExist teamA ?a" "PodRequestsAndLimits ?a = [(''cpu'', 45)]"
    by (simp_all add: IsReservePod_def IsPodExist_def PodRequestsAndLimits_def examplePod_def teamA_def)
  have r1: "snd (snd (RemovePod ?g exampleState ?pod ?a)) = exampleState(postFilterKey \<mapsto> ?s1)"
    using a by (simp add: RemovePod_Inr [OF st] SubtractWithNonNegativeResult_def)
  have st1: "getPostFilterState (exampleState(postFilterKey \<mapsto> ?s1)) = Inr ?s1"
    by (rule getPostFilterState_update)
  have r2: "snd (snd (RemovePod ?g (exampleState(postFilterKey \<mapsto> ?s1)) ?pod ?a))
              = exampleState(postFilterKey \<mapsto> ?s1)"
    using a by (simp add: RemovePod_Inr [OF st1] SubtractWithNonNegativeResult_def)
  have r3: "map_option used (snd (snd (AddPod ?g (exampleState(postFilterKey \<mapsto> ?s1)) ?pod ?a))
              postFilterKey) = Some [(''cpu'', 45)]"
    using a by (simp add: AddPod_Inr [OF st1] Add_def)
  show ?thesis
    by (simp add: r1 r2 r3 quantityOf_def)
qed

text \<open>
  C1 (amended). For every pod whose quota is found, \<^verbatim>\<open>PreFilter\<close> takes the tenant
  snapshot's \<open>Used\<close> plus the pod's request. Whenever that sum exceeds the snapshot
  \<open>Runtime\<close> in at least one dimension that \<open>Runtime\<close> lists, the pod is rejected with an
  \<open>Unschedulable\<close> status that names exactly the exceeded dimensions. A dimension that
  \<open>Runtime\<close> does not list is not limited: the sum exceeds \<open>Runtime\<close> in no such
  dimension, whatever it holds there. When the check of the ancestors is disabled, this
  is the only rejection: the pod is rejected if and only if the sum exceeds \<open>Runtime\<close>
  in a listed dimension, and a request that makes the sum equal to \<open>Runtime\<close> is
  accepted. When it is enabled, a pod that passes this check gets the status of the
  check of the ancestors.
\<close>

theorem PreFilter_leaf_check:
  assumes "GetQuotaInfoByName
             (RefreshRuntime (groupQuotaManager g) (getPodAssociateQuotaName g pod))
             (getPodAssociateQuotaName g pod) = Some qi"
  shows "set (snd (LessThanOrEqual (Add (PodRequestsAndLimits pod) (Used qi)) (Runtime qi)))
           = {key. exceedsIn (Add (PodRequestsAndLimits pod) (Used qi)) (Runtime qi) key}
    \<and> ((\<exists>key. exceedsIn (Add (PodRequestsAndLimits pod) (Used qi)) (Runtime qi) key) \<longrightarrow>
         map_option fst (PreFilter g cycleState pod) =
           Some (NewStatus Unschedulable
                  (InsufficientQuotas (getPodAssociateQuotaName g pod) (Runtime qi) (Used qi)
                     (PodRequestsAndLimits pod)
                     (snd (LessThanOrEqual (Add (PodRequestsAndLimits pod) (Used qi)) (Runtime qi))))))
    \<and> (\<not> EnableCheckParentQuota (pluginArgs g) \<longrightarrow>
         ((\<exists>message. map_option fst (PreFilter g cycleState pod)
                       = Some (NewStatus Unschedulable message))
            \<longleftrightarrow> (\<exists>key. exceedsIn (Add (PodRequestsAndLimits pod) (Used qi)) (Runtime qi) key))
         \<and> ((\<forall>key. \<not> exceedsIn (Add (PodRequestsAndLimits pod) (Used qi)) (Runtime qi) key) \<longrightarrow>
              map_option fst (PreFilter g cycleState pod) = Some (NewStatus Success (Text '''')))
         \<and> (distinct (map fst (Runtime qi))
              \<and> map_of (Add (PodRequestsAndLimits pod) (Used qi)) = map_of (Runtime qi) \<longrightarrow>
              map_option fst (PreFilter g cycleState pod) = Some (NewStatus Success (Text ''''))))
    \<and> (EnableCheckParentQuota (pluginArgs g)
         \<and> (\<forall>key. \<not> exceedsIn (Add (PodRequestsAndLimits pod) (Used qi)) (Runtime qi) key) \<longrightarrow>
         map_option fst (PreFilter g cycleState pod) =
           checkQuotaRecursive
             (RefreshRuntime (groupQuotaManager g) (getPodAssociateQuotaName g pod))
             (getPodAssociateQuotaName g pod) [getPodAssociateQuotaName g pod]
             (PodRequestsAndLimits pod))
    \<and> (map_of (Runtime qi) key = None \<longrightarrow>
         \<not> exceedsIn (Add (PodRequestsAndLimits pod) (Used qi)) (Runtime qi) key)"
proof -
  let ?sum = "Add (PodRequestsAndLimits pod) (Used qi)"
  have le: "fst (LessThanOrEqual ?sum (Runtime qi)) \<longleftrightarrow> (\<forall>key. \<not> exceedsIn ?sum (Runtime qi) key)"
    by (rule LessThanOrEqual_exceedsIn)
  have same: "distinct (map fst (Runtime qi)) \<and> map_of ?sum = map_of (Runtime qi) \<Longrightarrow>
              \<forall>key. \<not> exceedsIn ?sum (Runtime qi) key"
    using exceedsIn_same [of "Runtime qi" ?sum] by blast
  have rejected: "\<not> fst (LessThanOrEqual ?sum (Runtime qi)) \<Longrightarrow>
      map_option fst (PreFilter g cycleState pod) =
        Some (NewStatus Unschedulable
               (InsufficientQuotas (getPodAssociateQuotaName g pod) (Runtime qi) (Used qi)
                  (PodRequestsAndLimits pod) (snd (LessThanOrEqual ?sum (Runtime qi)))))"
    by (simp add: PreFilter_found [OF assms])
  have accepted: "fst (LessThanOrEqual ?sum (Runtime qi)) \<Longrightarrow>
      \<not> EnableCheckParentQuota (pluginArgs g) \<Longrightarrow>
      map_option fst (PreFilter g cycleState pod) = Some (NewStatus Success (Text ''''))"
    by (simp add: PreFilter_found [OF assms])
  have ancestors: "fst (LessThanOrEqual ?sum (Runtime qi)) \<Longrightarrow>
      EnableCheckParentQuota (pluginArgs g) \<Longrightarrow>
      map_option fst (PreFilter g cycleState pod) =
        checkQuotaRecursive
          (RefreshRuntime (groupQuotaManager g) (getPodAssociateQuotaName g pod))
          (getPodAssociateQuotaName g pod) [getPodAssociateQuotaName g pod]
          (PodRequestsAndLimits pod)"
    by (simp add: PreFilter_found [OF assms] option.map_comp comp_def option.map_ident)
  show ?thesis
    using le same rejected accepted ancestors LessThanOrEqual_snd [of ?sum "Runtime qi"]
      exceedsIn_unlisted [of "Runtime qi" key ?sum]
    by (intro conjI impI iffI) auto
qed

theorem PreFilter_leaf_check_witness:
  "GetQuotaInfoByName
     (RefreshRuntime (groupQuotaManager (examplePlugin False))
        (getPodAssociateQuotaName (examplePlugin False) (examplePod ''pod-b'' ''team-a'' False 10)))
     (getPodAssociateQuotaName (examplePlugin False) (examplePod ''pod-b'' ''team-a'' False 10))
     = Some teamA
   \<and> exceedsIn (Add (PodRequestsAndLimits (examplePod ''pod-b'' ''team-a'' False 10)) (Used teamA))
        (Runtime teamA) ''cpu''
   \<and> map_option fst (PreFilter (examplePlugin False) Map.empty (examplePod ''pod-b'' ''team-a'' False 10))
      = Some (NewStatus Unschedulable
               (InsufficientQuotas ''team-a'' [(''cpu'', 50)] [(''cpu'', 45)] [(''cpu'', 10)] [''cpu'']))
   \<and> \<not> EnableCheckParentQuota (pluginArgs (examplePlugin False))
   \<and> distinct (map fst (Runtime teamA))
   \<and> map_of (Add (PodRequestsAndLimits (examplePod ''pod-b'' ''team-a'' False 5)) (Used teamA))
      = map_of (Runtime teamA)
   \<and> map_option fst (PreFilter (examplePlugin False) Map.empty (examplePod ''pod-b'' ''team-a'' False 5))
      = Some (NewStatus Success (Text ''''))
   \<and> EnableCheckParentQuota (pluginArgs (examplePlugin True))
   \<and> map_option fst (PreFilter (examplePlugin True) Map.empty (examplePod ''pod-b'' ''team-a'' False 1))
      = Some (NewStatus Success (Text ''''))
   \<and> map_of (Runtime teamA) ''memory'' = None
   \<and> \<not> exceedsIn (Add (PodRequestsAndLimits (examplePod ''pod-b'' ''team-a'' False 10)) (Used teamA))
        (Runtime teamA) ''memory''"
proof -
  let ?p10 = "examplePod ''pod-b'' ''team-a'' False 10"
  let ?p5 = "examplePod ''pod-b'' ''team-a'' False 5"
  let ?p1 = "examplePod ''pod-b'' ''team-a'' False 1"
  have found10: "GetQuotaInfoByName
     (RefreshRuntime (groupQuotaManager (examplePlugin False))
        (getPodAssociateQuotaName (examplePlugin False) ?p10))
     (getPodAssociateQuotaName (examplePlugin False) ?p10) = Some teamA"
    by (rule examplePlugin_found)
  have found5: "GetQuotaInfoByName
     (RefreshRuntime (groupQuotaManager (examplePlugin False))
        (getPodAssociateQuotaName (examplePlugin False) ?p5))
     (getPodAssociateQuotaName (examplePlugin False) ?p5) = Some teamA"
    by (rule examplePlugin_found)
  have found1: "GetQuotaInfoByName
     (RefreshRuntime (groupQuotaManager (examplePlugin True))
        (getPodAssociateQuotaName (examplePlugin True) ?p1))
     (getPodAssociateQuotaName (examplePlugin True) ?p1) = Some teamA"
    by (rule examplePlugin_found)
  have exceeds10: "exceedsIn (Add (PodRequestsAndLimits ?p10) (Used teamA)) (Runtime teamA) ''cpu''"
    by (simp add: exceedsIn_def Add_def examplePod_reads teamA_reads)
  have dims10: "snd (LessThanOrEqual (Add (PodRequestsAndLimits ?p10) (Used teamA)) (Runtime teamA))
                  = [''cpu'']"
    by (simp add: LessThanOrEqual_def Add_def examplePod_reads teamA_reads)
  have off: "\<not> EnableCheckParentQuota (pluginArgs (examplePlugin False))"
    by (simp add: examplePlugin_reads)
  have on: "EnableCheckParentQuota (pluginArgs (examplePlugin True))"
    by (simp add: examplePlugin_reads)
  have dist: "distinct (map fst (Runtime teamA))"
    by (simp add: teamA_reads)
  have same5: "map_of (Add (PodRequestsAndLimits ?p5) (Used teamA)) = map_of (Runtime teamA)"
    by (simp add: Add_def examplePod_reads teamA_reads)
  have none1: "\<forall>key. \<not> exceedsIn (Add (PodRequestsAndLimits ?p1) (Used teamA)) (Runtime teamA) key"
    by (simp add: exceedsIn_def Add_def examplePod_reads teamA_reads)
  have rejected: "map_option fst (PreFilter (examplePlugin False) Map.empty ?p10)
      = Some (NewStatus Unschedulable
               (InsufficientQuotas (getPodAssociateQuotaName (examplePlugin False) ?p10)
                  (Runtime teamA) (Used teamA) (PodRequestsAndLimits ?p10)
                  (snd (LessThanOrEqual (Add (PodRequestsAndLimits ?p10) (Used teamA)) (Runtime teamA)))))"
    using PreFilter_leaf_check [OF found10, of Map.empty] exceeds10 by blast
  have accepted: "map_option fst (PreFilter (examplePlugin False) Map.empty ?p5)
      = Some (NewStatus Success (Text ''''))"
    using PreFilter_leaf_check [OF found5, of Map.empty] off dist same5 by blast
  have ancestors: "map_option fst (PreFilter (examplePlugin True) Map.empty ?p1)
      = checkQuotaRecursive
          (RefreshRuntime (groupQuotaManager (examplePlugin True))
             (getPodAssociateQuotaName (examplePlugin True) ?p1))
          (getPodAssociateQuotaName (examplePlugin True) ?p1)
          [getPodAssociateQuotaName (examplePlugin True) ?p1] (PodRequestsAndLimits ?p1)"
    using PreFilter_leaf_check [OF found1, of Map.empty] on none1 by blast
  have accepted1: "map_option fst (PreFilter (examplePlugin True) Map.empty ?p1)
      = Some (NewStatus Success (Text ''''))"
    by (simp add: ancestors examplePod_reads examplePlugin_reads RefreshRuntime_exampleManager
        checkQuotaRecursive_teamA)
  have rejected': "map_option fst (PreFilter (examplePlugin False) Map.empty ?p10)
      = Some (NewStatus Unschedulable
               (InsufficientQuotas ''team-a'' [(''cpu'', 50)] [(''cpu'', 45)] [(''cpu'', 10)] [''cpu'']))"
    using rejected unfolding dims10 by (simp add: examplePod_reads teamA_reads)
  have unlisted: "map_of (Runtime teamA) ''memory'' = None"
    by (simp add: teamA_reads)
  have free: "\<not> exceedsIn (Add (PodRequestsAndLimits ?p10) (Used teamA)) (Runtime teamA) ''memory''"
    using PreFilter_leaf_check [OF found10, where key = "''memory''"] unlisted by blast
  show ?thesis
    using found10 exceeds10 rejected' off dist same5 accepted on accepted1 unlisted free by blast
qed

text \<open>
  Two pods on which the claim as it was stated fails. With the check of the ancestors
  enabled, a request that makes the sum equal to the tenant's \<open>Runtime\<close> (45 + 5 = 50
  cpu) is rejected, because the parent is full (98 + 5 > 100). With it disabled, a
  request of 100 memory against a \<open>Runtime\<close> that lists cpu only is accepted, although
  the sum holds 110 memory and an absent entry of \<open>Runtime\<close> reads as zero.
\<close>

theorem PreFilter_leaf_check_counterexample:
  "GetQuotaInfoByName
     (RefreshRuntime (groupQuotaManager (examplePlugin True))
        (getPodAssociateQuotaName (examplePlugin True) (examplePod ''pod-b'' ''team-a'' False 5)))
     (getPodAssociateQuotaName (examplePlugin True) (examplePod ''pod-b'' ''team-a'' False 5))
     = Some teamA
   \<and> Add (PodRequestsAndLimits (examplePod ''pod-b'' ''team-a'' False 5)) (Used teamA) = Runtime teamA
   \<and> fst (LessThanOrEqual
           (Add (PodRequestsAndLimits (examplePod ''pod-b'' ''team-a'' False 5)) (Used teamA))
           (Runtime teamA))
   \<and> map_option fst (PreFilter (examplePlugin True) Map.empty (examplePod ''pod-b'' ''team-a'' False 5))
      = Some (NewStatus Unschedulable
               (InsufficientQuotas ''org'' [(''cpu'', 100)] [(''cpu'', 98)] [(''cpu'', 5)] [''cpu'']))
   \<and> GetQuotaInfoByName
       (RefreshRuntime (groupQuotaManager memoryPlugin)
          (getPodAssociateQuotaName memoryPlugin memoryPod))
       (getPodAssociateQuotaName memoryPlugin memoryPod) = Some teamM
   \<and> \<not> EnableCheckParentQuota (pluginArgs memoryPlugin)
   \<and> quantityOf (Add (PodRequestsAndLimits memoryPod) (Used teamM)) ''memory'' = 110
   \<and> quantityOf (Runtime teamM) ''memory'' = 0
   \<and> map_option fst (PreFilter memoryPlugin Map.empty memoryPod)
      = Some (NewStatus Success (Text ''''))"
proof -
  let ?p5 = "examplePod ''pod-b'' ''team-a'' False 5"
  have found: "GetQuotaInfoByName
     (RefreshRuntime (groupQuotaManager (examplePlugin True))
        (getPodAssociateQuotaName (examplePlugin True) ?p5))
     (getPodAssociateQuotaName (examplePlugin True) ?p5) = Some teamA"
    by (rule examplePlugin_found)
  have sum: "Add (PodRequestsAndLimits ?p5) (Used teamA) = Runtime teamA"
    by (simp add: Add_def examplePod_reads teamA_reads)
  have le: "fst (LessThanOrEqual (Add (PodRequestsAndLimits ?p5) (Used teamA)) (Runtime teamA))"
    by (simp add: LessThanOrEqual_def Add_def examplePod_reads teamA_reads)
  have rejected: "map_option fst (PreFilter (examplePlugin True) Map.empty ?p5)
      = Some (NewStatus Unschedulable
               (InsufficientQuotas ''org'' [(''cpu'', 100)] [(''cpu'', 98)] [(''cpu'', 5)] [''cpu'']))"
    using le
    by (simp add: PreFilter_found [OF found] examplePod_reads examplePlugin_reads
        RefreshRuntime_exampleManager checkQuotaRecursive_teamA option.map_comp comp_def)
  have off: "\<not> EnableCheckParentQuota (pluginArgs memoryPlugin)"
    by (simp add: memory_reads)
  have held: "quantityOf (Add (PodRequestsAndLimits memoryPod) (Used teamM)) ''memory'' = 110"
    by (simp add: quantityOf_Add memory_reads) (simp add: quantityOf_def)
  have allowed: "quantityOf (Runtime teamM) ''memory'' = 0"
    by (simp add: memory_reads quantityOf_def)
  have accepted: "map_option fst (PreFilter memoryPlugin Map.empty memoryPod)
      = Some (NewStatus Success (Text ''''))"
    by (simp add: PreFilter_found [OF memoryPlugin_found] memory_reads LessThanOrEqual_def Add_def)
  show ?thesis
    using found sum le rejected memoryPlugin_found off held allowed accepted by blast
qed




text \<open>
  C3 (amended). For every workload \<open>w\<close> that the quota group of its tenant does not
  track yet, and every prior shared state in which the \<open>Used\<close> of that group has no
  negative entry, \<^verbatim>\<open>Reserve(w)\<close> adds the request of \<open>w\<close> to the tenant's \<open>Used\<close>, and
  \<^verbatim>\<open>Unreserve(w)\<close> after it restores the quantity of every resource dimension of the
  tenant's \<open>Used\<close>, and its assignments, to their prior values; no other quota group is
  touched.
\<close>

theorem Reserve_Unreserve_restores_Used:
  "GetQuotaInfoByName (groupQuotaManager g) (getPodAssociateQuotaName g p) = Some qi
     \<and> \<not> IsPodExist qi p \<and> nonNegative (Used qi) \<longrightarrow>
     (\<exists>qi1. GetQuotaInfoByName (groupQuotaManager (snd (Reserve g p)))
                (getPodAssociateQuotaName g p) = Some qi1
           \<and> (\<forall>key. quantityOf (Used qi1) key
                      = quantityOf (Used qi) key + quantityOf (PodRequestsAndLimits p) key))
     \<and> (\<exists>qi2. GetQuotaInfoByName (groupQuotaManager (Unreserve (snd (Reserve g p)) p))
                 (getPodAssociateQuotaName g p) = Some qi2
           \<and> (\<forall>key. quantityOf (Used qi2) key = quantityOf (Used qi) key)
           \<and> assignments qi2 = assignments qi)
     \<and> (\<forall>name. name \<noteq> resolvedName (groupQuotaManager g) (getPodAssociateQuotaName g p) \<longrightarrow>
           quotaInfoMap (groupQuotaManager (Unreserve (snd (Reserve g p)) p)) name
             = quotaInfoMap (groupQuotaManager g) name)"
proof (intro conjI impI)
  assume a: "GetQuotaInfoByName (groupQuotaManager g) (getPodAssociateQuotaName g p) = Some qi
             \<and> \<not> IsPodExist qi p \<and> nonNegative (Used qi)"
  let ?n = "getPodAssociateQuotaName g p"
  let ?k = "resolvedName (groupQuotaManager g) ?n"
  let ?qi1 = "qi\<lparr>Used := Add (Used qi) (PodRequestsAndLimits p),
                Request := Add (Request qi) (PodRequestsAndLimits p),
                assignments := (assignments qi)(podKey p \<mapsto> PodRequestsAndLimits p)\<rparr>"
  let ?g1 = "snd (Reserve g p)"
  have found: "GetQuotaInfoByName (groupQuotaManager g) ?n = Some qi"
    using a by simp
  have m1: "groupQuotaManager ?g1 =
              (groupQuotaManager g)\<lparr>quotaInfoMap := (quotaInfoMap (groupQuotaManager g))(?k \<mapsto> ?qi1)\<rparr>"
    using a by (simp add: Reserve_untracked)
  have n1: "getPodAssociateQuotaName ?g1 p = ?n"
    by (rule getPodAssociateQuotaName_plugin)
  have l1: "GetQuotaInfoByName (groupQuotaManager ?g1) ?n = Some ?qi1"
    unfolding m1 by (rule GetQuotaInfoByName_update(1) [OF found])
  have k1: "resolvedName (groupQuotaManager ?g1) ?n = ?k"
    unfolding m1 by (rule GetQuotaInfoByName_update(2) [OF found])
  have t1: "IsPodExist ?qi1 p"
    by (simp add: IsPodExist_def)
  let ?qi2 = "?qi1\<lparr>Used := SubtractWithNonNegativeResult (Used ?qi1) (PodRequestsAndLimits p),
                    Request := SubtractWithNonNegativeResult (Request ?qi1) (PodRequestsAndLimits p),
                    assignments := (assignments ?qi1)(podKey p := None)\<rparr>"
  have m2: "groupQuotaManager (Unreserve ?g1 p) =
              (groupQuotaManager ?g1)\<lparr>quotaInfoMap :=
                 (quotaInfoMap (groupQuotaManager ?g1))(?k \<mapsto> ?qi2)\<rparr>"
    using Unreserve_tracked [of ?g1 p ?qi1] l1 t1 by (simp only: n1 k1)
  have l2: "GetQuotaInfoByName (groupQuotaManager (Unreserve ?g1 p)) ?n = Some ?qi2"
    unfolding m2 using GetQuotaInfoByName_update(1) [OF l1, of ?qi2] by (simp only: k1)
  have un: "assignments qi (podKey p) = None"
    using a by (simp add: IsPodExist_def)
  show "\<exists>qi1. GetQuotaInfoByName (groupQuotaManager ?g1) ?n = Some qi1
            \<and> (\<forall>key. quantityOf (Used qi1) key
                       = quantityOf (Used qi) key + quantityOf (PodRequestsAndLimits p) key)"
    using l1 by (simp add: quantityOf_Add)
  show "\<exists>qi2. GetQuotaInfoByName (groupQuotaManager (Unreserve ?g1 p)) ?n = Some qi2
            \<and> (\<forall>key. quantityOf (Used qi2) key = quantityOf (Used qi) key)
            \<and> assignments qi2 = assignments qi"
    using l2 a un by (simp add: quantityOf_Add_Subtract fun_upd_idem)
  show "\<forall>name. name \<noteq> ?k \<longrightarrow>
          quotaInfoMap (groupQuotaManager (Unreserve ?g1 p)) name
            = quotaInfoMap (groupQuotaManager g) name"
    by (simp add: m2 m1)
qed

theorem Reserve_Unreserve_restores_Used_witness:
  "GetQuotaInfoByName (groupQuotaManager (examplePlugin False))
     (getPodAssociateQuotaName (examplePlugin False) (examplePod ''pod-b'' ''team-a'' False 5))
     = Some teamA
   \<and> \<not> IsPodExist teamA (examplePod ''pod-b'' ''team-a'' False 5)
   \<and> nonNegative (Used teamA)
   \<and> (\<exists>qi1. GetQuotaInfoByName
               (groupQuotaManager (snd (Reserve (examplePlugin False)
                  (examplePod ''pod-b'' ''team-a'' False 5)))) ''team-a'' = Some qi1
           \<and> (\<forall>key. quantityOf (Used qi1) key
                      = quantityOf [(''cpu'', 45)] key + quantityOf [(''cpu'', 5)] key))
   \<and> (\<exists>qi2. GetQuotaInfoByName
               (groupQuotaManager (Unreserve (snd (Reserve (examplePlugin False)
                  (examplePod ''pod-b'' ''team-a'' False 5))) (examplePod ''pod-b'' ''team-a'' False 5)))
               ''team-a'' = Some qi2
           \<and> (\<forall>key. quantityOf (Used qi2) key = quantityOf [(''cpu'', 45)] key))
   \<and> GetQuotaInfoByName (groupQuotaManager (examplePlugin False))
       (getPodAssociateQuotaName (examplePlugin False) (examplePod ''pod-x'' ''team-x'' False 5))
       = Some defaultQuota
   \<and> (\<exists>qi1. GetQuotaInfoByName
               (groupQuotaManager (snd (Reserve (examplePlugin False)
                  (examplePod ''pod-x'' ''team-x'' False 5)))) ''team-x'' = Some qi1
           \<and> (\<forall>key. quantityOf (Used qi1) key
                      = quantityOf [(''cpu'', 1)] key + quantityOf [(''cpu'', 5)] key))"
proof -
  let ?g = "examplePlugin False"
  let ?p = "examplePod ''pod-b'' ''team-a'' False 5"
  let ?x = "examplePod ''pod-x'' ''team-x'' False 5"
  have known: "GetQuotaInfoByName (groupQuotaManager ?g) (getPodAssociateQuotaName ?g ?p) = Some teamA"
    by (simp add: examplePlugin_reads examplePod_reads exampleManager_def GetQuotaInfoByName_def)
  have untracked: "\<not> IsPodExist teamA ?p"
    by (simp add: IsPodExist_def examplePod_reads teamA_def)
  have nn: "nonNegative (Used teamA)"
    by (simp add: nonNegative_def teamA_reads)
  have fallback: "GetQuotaInfoByName (groupQuotaManager ?g) (getPodAssociateQuotaName ?g ?x)
                    = Some defaultQuota"
    by (simp add: examplePlugin_reads examplePod_reads exampleManager_reads GetQuotaInfoByName_def)
  have untracked_x: "\<not> IsPodExist defaultQuota ?x"
    by (simp add: IsPodExist_def examplePod_reads defaultQuota_def)
  have nn_x: "nonNegative (Used defaultQuota)"
    by (simp add: nonNegative_def defaultQuota_reads)
  note inst = Reserve_Unreserve_restores_Used [where g = ?g and p = ?p and qi = teamA]
  note inst_x = Reserve_Unreserve_restores_Used [where g = ?g and p = ?x and qi = defaultQuota]
  have r1: "\<exists>qi1. GetQuotaInfoByName (groupQuotaManager (snd (Reserve ?g ?p)))
                (getPodAssociateQuotaName ?g ?p) = Some qi1
           \<and> (\<forall>key. quantityOf (Used qi1) key
                      = quantityOf (Used teamA) key + quantityOf (PodRequestsAndLimits ?p) key)"
    using inst known untracked nn by blast
  have r2: "\<exists>qi2. GetQuotaInfoByName (groupQuotaManager (Unreserve (snd (Reserve ?g ?p)) ?p))
                 (getPodAssociateQuotaName ?g ?p) = Some qi2
           \<and> (\<forall>key. quantityOf (Used qi2) key = quantityOf (Used teamA) key)"
    using inst known untracked nn by blast
  have r3: "\<exists>qi1. GetQuotaInfoByName (groupQuotaManager (snd (Reserve ?g ?x)))
                (getPodAssociateQuotaName ?g ?x) = Some qi1
           \<and> (\<forall>key. quantityOf (Used qi1) key
                      = quantityOf (Used defaultQuota) key + quantityOf (PodRequestsAndLimits ?x) key)"
    using inst_x fallback untracked_x nn_x by blast
  have e: "getPodAssociateQuotaName ?g ?p = ''team-a''" "getPodAssociateQuotaName ?g ?x = ''team-x''"
    "Used teamA = [(''cpu'', 45)]" "Used defaultQuota = [(''cpu'', 1)]"
    "PodRequestsAndLimits ?p = [(''cpu'', 5)]" "PodRequestsAndLimits ?x = [(''cpu'', 5)]"
    by (simp_all add: examplePod_reads teamA_reads defaultQuota_reads)
  show ?thesis
    using known untracked nn r1 [unfolded e] r2 [unfolded e] fallback r3 [unfolded e] by blast
qed

theorem Reserve_Unreserve_counterexample:
  "GetQuotaInfoByName (groupQuotaManager (examplePlugin False))
     (getPodAssociateQuotaName (examplePlugin False) (examplePod ''pod-a'' ''team-a'' False 45))
     = Some teamA
   \<and> IsPodExist teamA (examplePod ''pod-a'' ''team-a'' False 45)
   \<and> Used teamA = [(''cpu'', 45)]
   \<and> map_option Used
        (GetQuotaInfoByName
           (groupQuotaManager (Unreserve (snd (Reserve (examplePlugin False)
              (examplePod ''pod-a'' ''team-a'' False 45))) (examplePod ''pod-a'' ''team-a'' False 45)))
           ''team-a'') = Some [(''cpu'', 0)]
   \<and> quantityOf [(''cpu'', 0)] ''cpu'' \<noteq> quantityOf [(''cpu'', 45)] ''cpu''"
proof -
  let ?g = "examplePlugin False"
  let ?a = "examplePod ''pod-a'' ''team-a'' False 45"
  have known: "GetQuotaInfoByName (groupQuotaManager ?g) (getPodAssociateQuotaName ?g ?a) = Some teamA"
    by (simp add: examplePlugin_reads examplePod_reads exampleManager_def GetQuotaInfoByName_def)
  have tracked: "IsPodExist teamA ?a"
    by (simp add: IsPodExist_def examplePod_reads teamA_def)
  have r: "snd (Reserve ?g ?a) = ?g"
    by (rule Reserve_tracked [OF known tracked])
  have k: "resolvedName (groupQuotaManager ?g) (getPodAssociateQuotaName ?g ?a) = ''team-a''"
    by (simp add: resolvedName_def examplePlugin_reads examplePod_reads exampleManager_def)
  have m: "groupQuotaManager (Unreserve ?g ?a) =
     (groupQuotaManager ?g)\<lparr>quotaInfoMap :=
        (quotaInfoMap (groupQuotaManager ?g))(''team-a'' \<mapsto>
             teamA\<lparr>Used := SubtractWithNonNegativeResult (Used teamA) (PodRequestsAndLimits ?a),
                Request := SubtractWithNonNegativeResult (Request teamA) (PodRequestsAndLimits ?a),
                assignments := (assignments teamA)(podKey ?a := None)\<rparr>)\<rparr>"
    using Unreserve_tracked [OF known tracked] unfolding k .
  have sub: "SubtractWithNonNegativeResult (Used teamA) (PodRequestsAndLimits ?a) = [(''cpu'', 0)]"
    by (simp add: examplePod_reads teamA_reads SubtractWithNonNegativeResult_def)
  have "map_option Used
          (GetQuotaInfoByName (groupQuotaManager (Unreserve ?g ?a)) ''team-a'') = Some [(''cpu'', 0)]"
    unfolding m by (simp add: GetQuotaInfoByName_def sub)
  then show ?thesis
    using known tracked by (simp add: r teamA_reads quantityOf_def)
qed

text \<open>
  C5. For every pod whose quota is found: when \<^verbatim>\<open>EnableCheckParentQuota\<close> is disabled,
  only the pod's own tenant quota is checked: \<^verbatim>\<open>PreFilter\<close> rejects the pod, naming
  the tenant, when the tenant's \<open>Used\<close> plus the request exceeds the tenant's \<open>Runtime\<close>,
  and accepts it otherwise, whatever the ancestors hold. When it is enabled and the
  ancestors of the tenant form a chain that ends, \<^verbatim>\<open>PreFilter\<close> returns, with the
  result of the same check on the tenant and then on each ancestor up the tree: the
  first group that fails rejects the pod, and the pod is accepted if and only if the
  tenant and every ancestor pass. A pod that fails the check of its tenant is rejected
  there with the flag enabled too.
\<close>

theorem PreFilter_ancestor_check:
  assumes "GetQuotaInfoByName
             (RefreshRuntime (groupQuotaManager g) (getPodAssociateQuotaName g pod))
             (getPodAssociateQuotaName g pod) = Some qi"
  shows "(\<not> EnableCheckParentQuota (pluginArgs g) \<longrightarrow>
            map_option fst (PreFilter g cycleState pod)
              = Some (checkGroups [(getPodAssociateQuotaName g pod, qi)] (PodRequestsAndLimits pod))
            \<and> (map_option fst (PreFilter g cycleState pod) = Some (NewStatus Success (Text ''''))
                 \<longleftrightarrow> withinRuntime (PodRequestsAndLimits pod) qi))
    \<and> (EnableCheckParentQuota (pluginArgs g)
         \<and> ancestorChain (RefreshRuntime (groupQuotaManager g) (getPodAssociateQuotaName g pod))
             (ParentName qi) chain \<longrightarrow>
         map_option fst (PreFilter g cycleState pod)
           = Some (checkGroups ((getPodAssociateQuotaName g pod, qi) # chain)
                     (PodRequestsAndLimits pod))
         \<and> (map_option fst (PreFilter g cycleState pod) = Some (NewStatus Success (Text ''''))
              \<longleftrightarrow> withinRuntime (PodRequestsAndLimits pod) qi
                   \<and> list_all (\<lambda>(name, a). withinRuntime (PodRequestsAndLimits pod) a) chain))
    \<and> (\<not> withinRuntime (PodRequestsAndLimits pod) qi \<longrightarrow>
         map_option fst (PreFilter g cycleState pod)
           = Some (NewStatus Unschedulable
                    (InsufficientQuotas (getPodAssociateQuotaName g pod) (Runtime qi) (Used qi)
                       (PodRequestsAndLimits pod)
                       (snd (LessThanOrEqual (Add (PodRequestsAndLimits pod) (Used qi)) (Runtime qi))))))"
proof (intro conjI impI)
  let ?n = "getPodAssociateQuotaName g pod"
  let ?req = "PodRequestsAndLimits pod"
  let ?mgr = "RefreshRuntime (groupQuotaManager g) ?n"
  {
    assume off: "\<not> EnableCheckParentQuota (pluginArgs g)"
    show run: "map_option fst (PreFilter g cycleState pod) = Some (checkGroups [(?n, qi)] ?req)"
      using off by (simp add: PreFilter_found [OF assms] checkGroups_Cons checkGroups_Nil)
    show "map_option fst (PreFilter g cycleState pod) = Some (NewStatus Success (Text ''''))
            \<longleftrightarrow> withinRuntime ?req qi"
      by (simp add: run checkGroups_Success)
  }
  {
    assume on: "EnableCheckParentQuota (pluginArgs g) \<and> ancestorChain ?mgr (ParentName qi) chain"
    have rec: "checkQuotaRecursive ?mgr ?n [?n] ?req = Some (checkGroups chain ?req)"
      using on assms by (blast intro: checkQuotaRecursive_chain)
    show run: "map_option fst (PreFilter g cycleState pod)
                 = Some (checkGroups ((?n, qi) # chain) ?req)"
      using on by (simp add: PreFilter_found [OF assms] rec checkGroups_Cons)
    show "map_option fst (PreFilter g cycleState pod) = Some (NewStatus Success (Text ''''))
            \<longleftrightarrow> withinRuntime ?req qi \<and> list_all (\<lambda>(name, a). withinRuntime ?req a) chain"
      by (simp add: run checkGroups_Success)
  }
  {
    assume "\<not> withinRuntime ?req qi"
    then show "map_option fst (PreFilter g cycleState pod)
           = Some (NewStatus Unschedulable
                    (InsufficientQuotas ?n (Runtime qi) (Used qi) ?req
                       (snd (LessThanOrEqual (Add ?req (Used qi)) (Runtime qi)))))"
      by (simp add: PreFilter_found [OF assms] withinRuntime_def)
  }
qed

theorem PreFilter_ancestor_check_witness:
  "GetQuotaInfoByName
     (RefreshRuntime (groupQuotaManager (examplePlugin True))
        (getPodAssociateQuotaName (examplePlugin True) (examplePod ''pod-b'' ''team-a'' False 5)))
     (getPodAssociateQuotaName (examplePlugin True) (examplePod ''pod-b'' ''team-a'' False 5))
     = Some teamA
   \<and> \<not> EnableCheckParentQuota (pluginArgs (examplePlugin False))
   \<and> map_option fst (PreFilter (examplePlugin False) Map.empty (examplePod ''pod-b'' ''team-a'' False 5))
       = Some (NewStatus Success (Text ''''))
   \<and> map_option fst (PreFilter (examplePlugin False) Map.empty (examplePod ''pod-b'' ''team-a'' False 10))
       = Some (NewStatus Unschedulable
                (InsufficientQuotas ''team-a'' [(''cpu'', 50)] [(''cpu'', 45)] [(''cpu'', 10)] [''cpu'']))
   \<and> EnableCheckParentQuota (pluginArgs (examplePlugin True))
   \<and> ancestorChain
       (RefreshRuntime (groupQuotaManager (examplePlugin True))
          (getPodAssociateQuotaName (examplePlugin True) (examplePod ''pod-b'' ''team-a'' False 5)))
       (ParentName teamA) [(''org'', org)]
   \<and> map_option fst (PreFilter (examplePlugin True) Map.empty (examplePod ''pod-b'' ''team-a'' False 5))
       = Some (NewStatus Unschedulable
                (InsufficientQuotas ''org'' [(''cpu'', 100)] [(''cpu'', 98)] [(''cpu'', 5)] [''cpu'']))
   \<and> map_option fst (PreFilter (examplePlugin True) Map.empty (examplePod ''pod-b'' ''team-a'' False 1))
       = Some (NewStatus Success (Text ''''))
   \<and> \<not> withinRuntime (PodRequestsAndLimits (examplePod ''pod-b'' ''team-a'' False 10)) teamA
   \<and> map_option fst (PreFilter (examplePlugin True) Map.empty (examplePod ''pod-b'' ''team-a'' False 10))
       = Some (NewStatus Unschedulable
                (InsufficientQuotas ''team-a'' [(''cpu'', 50)] [(''cpu'', 45)] [(''cpu'', 10)] [''cpu'']))"
proof -
  let ?p10 = "examplePod ''pod-b'' ''team-a'' False 10"
  let ?p5 = "examplePod ''pod-b'' ''team-a'' False 5"
  let ?p1 = "examplePod ''pod-b'' ''team-a'' False 1"
  have found5: "GetQuotaInfoByName
     (RefreshRuntime (groupQuotaManager (examplePlugin True))
        (getPodAssociateQuotaName (examplePlugin True) ?p5))
     (getPodAssociateQuotaName (examplePlugin True) ?p5) = Some teamA"
    by (rule examplePlugin_found)
  have off: "\<not> EnableCheckParentQuota (pluginArgs (examplePlugin False))"
    by (simp add: examplePlugin_reads)
  have on: "EnableCheckParentQuota (pluginArgs (examplePlugin True))"
    by (simp add: examplePlugin_reads)
  have chain: "\<And>n. ancestorChain
       (RefreshRuntime (groupQuotaManager (examplePlugin True))
          (getPodAssociateQuotaName (examplePlugin True) (examplePod ''pod-b'' ''team-a'' False n)))
       (ParentName teamA) [(''org'', org)]"
    using exampleManager_chain
    by (simp add: examplePlugin_reads RefreshRuntime_exampleManager teamA_reads)
  have chain5: "ancestorChain
       (RefreshRuntime (groupQuotaManager (examplePlugin True))
          (getPodAssociateQuotaName (examplePlugin True) ?p5))
       (ParentName teamA) [(''org'', org)]"
    by (rule chain)
  have over10: "\<not> withinRuntime (PodRequestsAndLimits ?p10) teamA"
    by (simp add: withinRuntime_def LessThanOrEqual_def Add_def examplePod_reads teamA_reads)
  have groups: "\<And>n. checkGroups [(''team-a'', teamA)] [(''cpu'', n)] =
      (if 5 < n then NewStatus Unschedulable
                       (InsufficientQuotas ''team-a'' [(''cpu'', 50)] [(''cpu'', 45)] [(''cpu'', n)] [''cpu''])
       else NewStatus Success (Text ''''))"
    by (simp add: checkGroups_Cons checkGroups_Nil LessThanOrEqual_def Add_def teamA_reads)
  have groups_org: "\<And>n. checkGroups [(''team-a'', teamA), (''org'', org)] [(''cpu'', n)] =
      (if 5 < n then NewStatus Unschedulable
                       (InsufficientQuotas ''team-a'' [(''cpu'', 50)] [(''cpu'', 45)] [(''cpu'', n)] [''cpu''])
       else if 2 < n then NewStatus Unschedulable
                       (InsufficientQuotas ''org'' [(''cpu'', 100)] [(''cpu'', 98)] [(''cpu'', n)] [''cpu''])
       else NewStatus Success (Text ''''))"
    by (simp add: checkGroups_Cons checkGroups_Nil LessThanOrEqual_def Add_def teamA_reads org_def)
  have c1: "map_option fst (PreFilter (examplePlugin False) Map.empty ?p5)
              = Some (checkGroups [(getPodAssociateQuotaName (examplePlugin False) ?p5, teamA)]
                        (PodRequestsAndLimits ?p5))"
    using PreFilter_ancestor_check
            [where g = "examplePlugin False" and pod = ?p5 and qi = teamA
               and cycleState = Map.empty and chain = "[]"]
          examplePlugin_found [of False "''pod-b''" False 5] off
    by blast
  have c2: "map_option fst (PreFilter (examplePlugin False) Map.empty ?p10)
              = Some (checkGroups [(getPodAssociateQuotaName (examplePlugin False) ?p10, teamA)]
                        (PodRequestsAndLimits ?p10))"
    using PreFilter_ancestor_check
            [where g = "examplePlugin False" and pod = ?p10 and qi = teamA
               and cycleState = Map.empty and chain = "[]"]
          examplePlugin_found [of False "''pod-b''" False 10] off
    by blast
  have c3: "map_option fst (PreFilter (examplePlugin True) Map.empty ?p5)
              = Some (checkGroups ((getPodAssociateQuotaName (examplePlugin True) ?p5, teamA)
                                     # [(''org'', org)]) (PodRequestsAndLimits ?p5))"
    using PreFilter_ancestor_check
            [where g = "examplePlugin True" and pod = ?p5 and qi = teamA
               and cycleState = Map.empty and chain = "[(''org'', org)]"]
          found5 on chain5
    by blast
  have c4: "map_option fst (PreFilter (examplePlugin True) Map.empty ?p1)
              = Some (checkGroups ((getPodAssociateQuotaName (examplePlugin True) ?p1, teamA)
                                     # [(''org'', org)]) (PodRequestsAndLimits ?p1))"
    using PreFilter_ancestor_check
            [where g = "examplePlugin True" and pod = ?p1 and qi = teamA
               and cycleState = Map.empty and chain = "[(''org'', org)]"]
          examplePlugin_found [of True "''pod-b''" False 1] on chain [of 1]
    by blast
  have c5: "map_option fst (PreFilter (examplePlugin True) Map.empty ?p10)
           = Some (NewStatus Unschedulable
                    (InsufficientQuotas (getPodAssociateQuotaName (examplePlugin True) ?p10)
                       (Runtime teamA) (Used teamA) (PodRequestsAndLimits ?p10)
                       (snd (LessThanOrEqual (Add (PodRequestsAndLimits ?p10) (Used teamA))
                               (Runtime teamA)))))"
    using PreFilter_ancestor_check
            [where g = "examplePlugin True" and pod = ?p10 and qi = teamA
               and cycleState = Map.empty and chain = "[]"]
          examplePlugin_found [of True "''pod-b''" False 10] over10
    by blast
  have r1: "map_option fst (PreFilter (examplePlugin False) Map.empty ?p5)
              = Some (NewStatus Success (Text ''''))"
    by (simp add: c1 examplePod_reads groups)
  have r2: "map_option fst (PreFilter (examplePlugin False) Map.empty ?p10)
       = Some (NewStatus Unschedulable
                (InsufficientQuotas ''team-a'' [(''cpu'', 50)] [(''cpu'', 45)] [(''cpu'', 10)] [''cpu'']))"
    by (simp add: c2 examplePod_reads groups)
  have r3: "map_option fst (PreFilter (examplePlugin True) Map.empty ?p5)
       = Some (NewStatus Unschedulable
                (InsufficientQuotas ''org'' [(''cpu'', 100)] [(''cpu'', 98)] [(''cpu'', 5)] [''cpu'']))"
    by (simp add: c3 examplePod_reads groups_org)
  have r4: "map_option fst (PreFilter (examplePlugin True) Map.empty ?p1)
              = Some (NewStatus Success (Text ''''))"
    by (simp add: c4 examplePod_reads groups_org)
  have r5: "map_option fst (PreFilter (examplePlugin True) Map.empty ?p10)
       = Some (NewStatus Unschedulable
                (InsufficientQuotas ''team-a'' [(''cpu'', 50)] [(''cpu'', 45)] [(''cpu'', 10)] [''cpu'']))"
    by (simp add: c5 examplePod_reads teamA_reads LessThanOrEqual_def Add_def)
  show ?thesis
    using found5 off r1 r2 on chain5 r3 r4 over10 r5 by blast
qed

text \<open>
  C6. When the quota name of a pod is no group of the tree, \<^verbatim>\<open>GetQuotaInfoByName\<close>
  resolves it to the group \<open>default\<close> unless strict mode is configured. Then
  \<^verbatim>\<open>PreFilter\<close> does not fail for the unknown tenant: it takes the snapshot of
  \<open>default\<close> as the per-attempt state and checks the pod against the \<open>Used\<close> and \<open>Runtime\<close>
  of \<open>default\<close>. In strict mode, or when the tree has no group \<open>default\<close>, no quota is
  found and \<^verbatim>\<open>PreFilter\<close> returns the \<open>Error\<close> status.
\<close>

theorem PreFilter_unknown_tenant:
  assumes "quotaInfoMap (groupQuotaManager g) (getPodAssociateQuotaName g pod) = None"
  shows "GetQuotaInfoByName (groupQuotaManager g) (getPodAssociateQuotaName g pod)
           = (if strictMode (groupQuotaManager g) then None
              else quotaInfoMap (groupQuotaManager g) DefaultQuotaName)
    \<and> (strictMode (groupQuotaManager g)
         \<or> quotaInfoMap (groupQuotaManager g) DefaultQuotaName = None \<longrightarrow>
         PreFilter g cycleState pod =
           Some (NewStatus Error (Text ''Could not find the specified ElasticQuota''),
                 g\<lparr>groupQuotaManager :=
                     RefreshRuntime (groupQuotaManager g) (getPodAssociateQuotaName g pod)\<rparr>,
                 cycleState))
    \<and> (\<not> strictMode (groupQuotaManager g)
         \<and> quotaInfoMap (RefreshRuntime (groupQuotaManager g) (getPodAssociateQuotaName g pod))
             DefaultQuotaName = Some d \<longrightarrow>
         (\<not> fst (LessThanOrEqual (Add (PodRequestsAndLimits pod) (Used d)) (Runtime d)) \<longrightarrow>
            PreFilter g cycleState pod =
              Some (NewStatus Unschedulable
                      (InsufficientQuotas (getPodAssociateQuotaName g pod) (Runtime d) (Used d)
                         (PodRequestsAndLimits pod)
                         (snd (LessThanOrEqual (Add (PodRequestsAndLimits pod) (Used d)) (Runtime d)))),
                    g\<lparr>groupQuotaManager :=
                        RefreshRuntime (groupQuotaManager g) (getPodAssociateQuotaName g pod)\<rparr>,
                    cycleState(postFilterKey \<mapsto>
                      \<lparr>quotaInfo = d, used = Used d, runtime = Runtime d\<rparr>)))
         \<and> (fst (LessThanOrEqual (Add (PodRequestsAndLimits pod) (Used d)) (Runtime d))
              \<and> \<not> EnableCheckParentQuota (pluginArgs g) \<longrightarrow>
            PreFilter g cycleState pod =
              Some (NewStatus Success (Text ''''),
                    g\<lparr>groupQuotaManager :=
                        RefreshRuntime (groupQuotaManager g) (getPodAssociateQuotaName g pod)\<rparr>,
                    cycleState(postFilterKey \<mapsto>
                      \<lparr>quotaInfo = d, used = Used d, runtime = Runtime d\<rparr>)))
         \<and> (fst (LessThanOrEqual (Add (PodRequestsAndLimits pod) (Used d)) (Runtime d))
              \<and> EnableCheckParentQuota (pluginArgs g) \<longrightarrow>
            map_option fst (PreFilter g cycleState pod) =
              checkQuotaRecursive
                (RefreshRuntime (groupQuotaManager g) (getPodAssociateQuotaName g pod))
                (getPodAssociateQuotaName g pod) [getPodAssociateQuotaName g pod]
                (PodRequestsAndLimits pod)))"
proof -
  let ?n = "getPodAssociateQuotaName g pod"
  let ?mgr = "RefreshRuntime (groupQuotaManager g) ?n"
  have unknown': "quotaInfoMap ?mgr ?n = None"
    using assms by (simp add: RefreshRuntime_None)
  have lookup: "GetQuotaInfoByName ?mgr ?n
                  = (if strictMode (groupQuotaManager g) then None
                     else quotaInfoMap ?mgr DefaultQuotaName)"
    using unknown' by (simp add: GetQuotaInfoByName_def RefreshRuntime_strictMode)
  have absent: "strictMode (groupQuotaManager g)
                \<or> quotaInfoMap (groupQuotaManager g) DefaultQuotaName = None \<Longrightarrow>
                GetQuotaInfoByName ?mgr ?n = None"
    using lookup by (auto simp: RefreshRuntime_None)
  have fallback: "\<not> strictMode (groupQuotaManager g)
                  \<and> quotaInfoMap ?mgr DefaultQuotaName = Some d \<Longrightarrow>
                  GetQuotaInfoByName ?mgr ?n = Some d"
    using lookup by simp
  show ?thesis
  proof (intro conjI impI)
    show "GetQuotaInfoByName (groupQuotaManager g) ?n
           = (if strictMode (groupQuotaManager g) then None
              else quotaInfoMap (groupQuotaManager g) DefaultQuotaName)"
      using assms by (simp add: GetQuotaInfoByName_def)
  next
    assume "strictMode (groupQuotaManager g)
            \<or> quotaInfoMap (groupQuotaManager g) DefaultQuotaName = None"
    then show "PreFilter g cycleState pod =
           Some (NewStatus Error (Text ''Could not find the specified ElasticQuota''),
                 g\<lparr>groupQuotaManager := ?mgr\<rparr>, cycleState)"
      by (rule PreFilter_not_found [OF absent])
  next
    assume d: "\<not> strictMode (groupQuotaManager g) \<and> quotaInfoMap ?mgr DefaultQuotaName = Some d"
      and "\<not> fst (LessThanOrEqual (Add (PodRequestsAndLimits pod) (Used d)) (Runtime d))"
    then show "PreFilter g cycleState pod =
              Some (NewStatus Unschedulable
                      (InsufficientQuotas ?n (Runtime d) (Used d) (PodRequestsAndLimits pod)
                         (snd (LessThanOrEqual (Add (PodRequestsAndLimits pod) (Used d)) (Runtime d)))),
                    g\<lparr>groupQuotaManager := ?mgr\<rparr>,
                    cycleState(postFilterKey \<mapsto>
                      \<lparr>quotaInfo = d, used = Used d, runtime = Runtime d\<rparr>))"
      by (simp add: PreFilter_found [OF fallback])
  next
    assume d: "\<not> strictMode (groupQuotaManager g) \<and> quotaInfoMap ?mgr DefaultQuotaName = Some d"
      and "fst (LessThanOrEqual (Add (PodRequestsAndLimits pod) (Used d)) (Runtime d))
           \<and> \<not> EnableCheckParentQuota (pluginArgs g)"
    then show "PreFilter g cycleState pod =
              Some (NewStatus Success (Text ''''), g\<lparr>groupQuotaManager := ?mgr\<rparr>,
                    cycleState(postFilterKey \<mapsto>
                      \<lparr>quotaInfo = d, used = Used d, runtime = Runtime d\<rparr>))"
      by (simp add: PreFilter_found [OF fallback])
  next
    assume d: "\<not> strictMode (groupQuotaManager g) \<and> quotaInfoMap ?mgr DefaultQuotaName = Some d"
      and "fst (LessThanOrEqual (Add (PodRequestsAndLimits pod) (Used d)) (Runtime d))
           \<and> EnableCheckParentQuota (pluginArgs g)"
    then show "map_option fst (PreFilter g cycleState pod) =
              checkQuotaRecursive ?mgr ?n [?n] (PodRequestsAndLimits pod)"
      by (simp add: PreFilter_found [OF fallback] option.map_comp comp_def option.map_ident)
  qed
qed

theorem PreFilter_unknown_tenant_witness:
  "quotaInfoMap (groupQuotaManager (examplePlugin False))
     (getPodAssociateQuotaName (examplePlugin False) (examplePod ''pod-x'' ''team-x'' False 5)) = None
   \<and> \<not> strictMode (groupQuotaManager (examplePlugin False))
   \<and> quotaInfoMap (RefreshRuntime (groupQuotaManager (examplePlugin False)) ''team-x'')
        DefaultQuotaName = Some defaultQuota
   \<and> PreFilter (examplePlugin False) Map.empty (examplePod ''pod-x'' ''team-x'' False 5) =
        Some (NewStatus Success (Text ''''),
              (examplePlugin False)\<lparr>groupQuotaManager := exampleManager\<rparr>,
              [postFilterKey \<mapsto>
                 \<lparr>quotaInfo = defaultQuota, used = [(''cpu'', 1)], runtime = [(''cpu'', 8)]\<rparr>])
   \<and> PreFilter (examplePlugin False) Map.empty (examplePod ''pod-x'' ''team-x'' False 10) =
        Some (NewStatus Unschedulable
                (InsufficientQuotas ''team-x'' [(''cpu'', 8)] [(''cpu'', 1)] [(''cpu'', 10)] [''cpu'']),
              (examplePlugin False)\<lparr>groupQuotaManager := exampleManager\<rparr>,
              [postFilterKey \<mapsto>
                 \<lparr>quotaInfo = defaultQuota, used = [(''cpu'', 1)], runtime = [(''cpu'', 8)]\<rparr>])
   \<and> map_option fst (PreFilter (examplePlugin True) Map.empty (examplePod ''pod-x'' ''team-x'' False 5))
        = Some (NewStatus Success (Text ''''))
   \<and> strictMode (groupQuotaManager strictPlugin)
   \<and> map_option fst (PreFilter strictPlugin Map.empty (examplePod ''pod-x'' ''team-x'' False 5))
        = Some (NewStatus Error (Text ''Could not find the specified ElasticQuota''))"
proof -
  let ?x5 = "examplePod ''pod-x'' ''team-x'' False 5"
  let ?x10 = "examplePod ''pod-x'' ''team-x'' False 10"
  let ?cs = "[postFilterKey \<mapsto>
                 \<lparr>quotaInfo = defaultQuota, used = [(''cpu'', 1)], runtime = [(''cpu'', 8)]\<rparr>]"
  have unknown: "\<And>flag n. quotaInfoMap (groupQuotaManager (examplePlugin flag))
     (getPodAssociateQuotaName (examplePlugin flag) (examplePod ''pod-x'' ''team-x'' False n)) = None"
    by (simp add: examplePlugin_reads examplePod_reads exampleManager_reads)
  have lax: "\<And>flag. \<not> strictMode (groupQuotaManager (examplePlugin flag))"
    by (simp add: examplePlugin_reads exampleManager_reads)
  have dflt: "\<And>flag n. quotaInfoMap
        (RefreshRuntime (groupQuotaManager (examplePlugin flag))
           (getPodAssociateQuotaName (examplePlugin flag) (examplePod ''pod-x'' ''team-x'' False n)))
        DefaultQuotaName = Some defaultQuota"
    by (simp add: examplePlugin_reads RefreshRuntime_exampleManager exampleManager_reads)
  have le5: "fst (LessThanOrEqual (Add (PodRequestsAndLimits ?x5) (Used defaultQuota))
                    (Runtime defaultQuota))"
    by (simp add: LessThanOrEqual_def Add_def examplePod_reads defaultQuota_reads)
  have gt10: "\<not> fst (LessThanOrEqual (Add (PodRequestsAndLimits ?x10) (Used defaultQuota))
                    (Runtime defaultQuota))"
    by (simp add: LessThanOrEqual_def Add_def examplePod_reads defaultQuota_reads)
  have dims10: "snd (LessThanOrEqual (Add (PodRequestsAndLimits ?x10) (Used defaultQuota))
                    (Runtime defaultQuota)) = [''cpu'']"
    by (simp add: LessThanOrEqual_def Add_def examplePod_reads defaultQuota_reads)
  have off: "\<not> EnableCheckParentQuota (pluginArgs (examplePlugin False))"
    by (simp add: examplePlugin_reads)
  have on: "EnableCheckParentQuota (pluginArgs (examplePlugin True))"
    by (simp add: examplePlugin_reads)
  have c1: "PreFilter (examplePlugin False) Map.empty ?x5 =
              Some (NewStatus Success (Text ''''),
                    (examplePlugin False)\<lparr>groupQuotaManager :=
                       RefreshRuntime (groupQuotaManager (examplePlugin False))
                         (getPodAssociateQuotaName (examplePlugin False) ?x5)\<rparr>,
                    Map.empty(postFilterKey \<mapsto>
                      \<lparr>quotaInfo = defaultQuota, used = Used defaultQuota,
                         runtime = Runtime defaultQuota\<rparr>))"
    using PreFilter_unknown_tenant
            [where g = "examplePlugin False" and pod = ?x5 and d = defaultQuota
               and cycleState = Map.empty]
          unknown [of False 5] lax [of False] dflt [of False 5] le5 off
    by blast
  have c2: "PreFilter (examplePlugin False) Map.empty ?x10 =
              Some (NewStatus Unschedulable
                      (InsufficientQuotas (getPodAssociateQuotaName (examplePlugin False) ?x10)
                         (Runtime defaultQuota) (Used defaultQuota) (PodRequestsAndLimits ?x10)
                         (snd (LessThanOrEqual (Add (PodRequestsAndLimits ?x10) (Used defaultQuota))
                                 (Runtime defaultQuota)))),
                    (examplePlugin False)\<lparr>groupQuotaManager :=
                       RefreshRuntime (groupQuotaManager (examplePlugin False))
                         (getPodAssociateQuotaName (examplePlugin False) ?x10)\<rparr>,
                    Map.empty(postFilterKey \<mapsto>
                      \<lparr>quotaInfo = defaultQuota, used = Used defaultQuota,
                         runtime = Runtime defaultQuota\<rparr>))"
    using PreFilter_unknown_tenant
            [where g = "examplePlugin False" and pod = ?x10 and d = defaultQuota
               and cycleState = Map.empty]
          unknown [of False 10] lax [of False] dflt [of False 10] gt10
    by blast
  have c3: "map_option fst (PreFilter (examplePlugin True) Map.empty ?x5) =
              checkQuotaRecursive
                (RefreshRuntime (groupQuotaManager (examplePlugin True))
                   (getPodAssociateQuotaName (examplePlugin True) ?x5))
                (getPodAssociateQuotaName (examplePlugin True) ?x5)
                [getPodAssociateQuotaName (examplePlugin True) ?x5] (PodRequestsAndLimits ?x5)"
    using PreFilter_unknown_tenant
            [where g = "examplePlugin True" and pod = ?x5 and d = defaultQuota
               and cycleState = Map.empty]
          unknown [of True 5] lax [of True] dflt [of True 5] le5 on
    by blast
  have strict: "strictMode (groupQuotaManager strictPlugin)"
    by (rule strictPlugin_reads)
  have unknown_strict: "quotaInfoMap (groupQuotaManager strictPlugin)
                          (getPodAssociateQuotaName strictPlugin ?x5) = None"
    by (simp add: strictPlugin_reads examplePod_reads exampleManager_reads)
  have c4: "PreFilter strictPlugin Map.empty ?x5 =
              Some (NewStatus Error (Text ''Could not find the specified ElasticQuota''),
                    strictPlugin\<lparr>groupQuotaManager :=
                       RefreshRuntime (groupQuotaManager strictPlugin)
                         (getPodAssociateQuotaName strictPlugin ?x5)\<rparr>,
                    Map.empty)"
    using PreFilter_unknown_tenant
            [where g = strictPlugin and pod = ?x5 and cycleState = Map.empty]
          unknown_strict strict
    by blast
  have r1: "PreFilter (examplePlugin False) Map.empty ?x5 =
              Some (NewStatus Success (Text ''''),
                    (examplePlugin False)\<lparr>groupQuotaManager := exampleManager\<rparr>, ?cs)"
    using c1 by (simp add: examplePlugin_reads RefreshRuntime_exampleManager defaultQuota_reads)
  have r2: "PreFilter (examplePlugin False) Map.empty ?x10 =
              Some (NewStatus Unschedulable
                      (InsufficientQuotas ''team-x'' [(''cpu'', 8)] [(''cpu'', 1)] [(''cpu'', 10)]
                         [''cpu'']),
                    (examplePlugin False)\<lparr>groupQuotaManager := exampleManager\<rparr>, ?cs)"
    using c2 unfolding dims10
    by (simp add: examplePlugin_reads examplePod_reads RefreshRuntime_exampleManager
        defaultQuota_reads)
  have r3: "map_option fst (PreFilter (examplePlugin True) Map.empty ?x5)
              = Some (NewStatus Success (Text ''''))"
    by (simp add: c3 examplePlugin_reads examplePod_reads RefreshRuntime_exampleManager
        checkQuotaRecursive_teamX)
  have r4: "map_option fst (PreFilter strictPlugin Map.empty ?x5)
              = Some (NewStatus Error (Text ''Could not find the specified ElasticQuota''))"
    by (simp add: c4)
  have d0: "quotaInfoMap (RefreshRuntime (groupQuotaManager (examplePlugin False)) ''team-x'')
              DefaultQuotaName = Some defaultQuota"
    using dflt [of False 5] by (simp add: examplePod_reads)
  show ?thesis
    using unknown [of False 5] lax [of False] d0 r1 r2 r3 strict r4 by blast
qed

end
